theory Spec2Isabelle
  imports Main "HOL-Library.AList"
begin

section \<open>Data model\<close>

text \<open>
  Exceptions of the Python program, as values. \<open>KeyError\<close> carries the missing key,
  \<open>Raised\<close> stands for any exception of another class raised by a collaborator
  (scikit-learn, numpy, the file system).
\<close>

datatype error =
    KeyError string
  | TypeError string
  | IndexError
  | Raised string

text \<open>
  The Label Table: one row per sample, with (at least) the columns \<open>contrast\<close> and
  \<open>subject\<close>. A pandas column \<open>Y["contrast"]\<close> is \<open>map contrast Y\<close>.
\<close>

record 'sub row =
  contrast :: string
  subject :: 'sub

type_synonym 'sub label_table = "'sub row list"

text \<open>A Python \<open>dict\<close> from labels to class numbers, in insertion order.\<close>

type_synonym label_dict = "(string \<times> nat) list"

section \<open>Label Encoder: \<open>preprocess_label\<close>\<close>

text \<open>
  \<open>Series.unique()\<close>: the distinct values in order of appearance. The scan keeps the
  values seen so far and appends a value the first time it is met.
\<close>

fun unique_acc :: "'a list \<Rightarrow> 'a list \<Rightarrow> 'a list" where
  "unique_acc seen [] = seen"
| "unique_acc seen (x # xs) =
     (if x \<in> set seen then unique_acc seen xs else unique_acc (seen @ [x]) xs)"

definition unique :: "'a list \<Rightarrow> 'a list" where
  "unique xs = unique_acc [] xs"

text \<open>\<open>enumerate(xs)\<close>: pairs \<open>(k, v)\<close> with \<open>k\<close> counting from 0.\<close>

definition enumerate0 :: "'a list \<Rightarrow> (nat \<times> 'a) list" where
  "enumerate0 xs = enumerate 0 xs"

text \<open>
  The comprehension \<open>{v: k for k, v in enumerate(u)}\<close>: each pair is stored under the
  key \<open>v\<close>; storing under a key already present replaces its value and keeps its place.
\<close>

definition build_dict :: "string list \<Rightarrow> label_dict" where
  "build_dict u = fold (\<lambda>(k, v) d. AList.update v k d) (enumerate0 u) []"

text \<open>
  \<open>Y_t["contrast"].apply(lambda x: Y_dict[x])\<close>: rows are visited in order and the
  first label missing from the dictionary raises \<open>KeyError\<close>.
\<close>

fun apply_dict :: "label_dict \<Rightarrow> string list \<Rightarrow> error + nat list" where
  "apply_dict d [] = Inr []"
| "apply_dict d (x # xs) =
     (case map_of d x of
        None \<Rightarrow> Inl (KeyError x)
      | Some k \<Rightarrow> (case apply_dict d xs of Inl e \<Rightarrow> Inl e | Inr ks \<Rightarrow> Inr (k # ks)))"

text \<open>
  The value returned by \<open>preprocess_label\<close>: the array of class numbers alone, or the
  pair of the array and the dictionary when \<open>return_dict\<close> is true.
\<close>

datatype label_result =
    Encoded "nat list"
  | EncodedWithDict "nat list" label_dict

text \<open>
  \<open>preprocess_label(Y_t, use_dict, return_dict)\<close>. The first component is what the call
  prints, in order; the lines are printed before the lookup that may raise.
\<close>

definition preprocess_label ::
  "'sub label_table \<Rightarrow> label_dict option \<Rightarrow> bool \<Rightarrow> string list \<times> (error + label_result)"
where
  "preprocess_label Y_t use_dict return_dict =
     (let (out1, Y_dict) =
            (case use_dict of
               None \<Rightarrow> ([''     >>> creating Y_dict''], build_dict (unique (map contrast Y_t)))
             | Some d \<Rightarrow> ([], d));
          out2 = out1 @ [''     >>> Applying Y_dict'']
      in if return_dict
         then (out2, case apply_dict Y_dict (map contrast Y_t) of
                       Inl e \<Rightarrow> Inl e
                     | Inr ks \<Rightarrow> Inr (EncodedWithDict ks Y_dict))
         else (out2, case apply_dict Y_dict (map contrast Y_t) of
                       Inl e \<Rightarrow> Inl e
                     | Inr ks \<Rightarrow> Inr (Encoded ks)))"

text \<open>\<open>str(n)\<close> for a natural number: its decimal digits.\<close>

fun string_of_nat :: "nat \<Rightarrow> string" where
  "string_of_nat n =
     (if n < 10 then [char_of (48 + n)]
      else string_of_nat (n div 10) @ [char_of (48 + n mod 10)])"

text \<open>
  The inverse mapping of a dictionary, \<open>{k: v for v, k in D.items()}\<close>, and decoding an
  array of class numbers through it, \<open>[D_inv[c] for c in codes]\<close>.
\<close>

definition inverse_dict :: "label_dict \<Rightarrow> (nat \<times> string) list" where
  "inverse_dict D = fold (\<lambda>(v, k) d. AList.update k v d) D []"

fun decode :: "(nat \<times> string) list \<Rightarrow> nat list \<Rightarrow> error + string list" where
  "decode D_inv [] = Inr []"
| "decode D_inv (c # cs) =
     (case map_of D_inv c of
        None \<Rightarrow> Inl (KeyError (string_of_nat c))
      | Some v \<Rightarrow> (case decode D_inv cs of Inl e \<Rightarrow> Inl e | Inr vs \<Rightarrow> Inr (v # vs)))"

section \<open>Subject-level row masks\<close>

text \<open>\<open>Series.isin(values)\<close>: the boolean mask of membership, one entry per row.\<close>

definition isin :: "'a list \<Rightarrow> 'a list \<Rightarrow> bool list" where
  "isin col vals = map (\<lambda>v. v \<in> set vals) col"

text \<open>
  Indexing by a boolean mask, \<open>a[msk]\<close>: the entries whose mask bit is set, in order.
  numpy raises \<open>IndexError\<close> when the mask and the array differ in length.
\<close>

definition bool_index :: "'a list \<Rightarrow> bool list \<Rightarrow> error + 'a list" where
  "bool_index a msk =
     (if length msk \<noteq> length a then Inl IndexError
      else Inr (map fst (filter snd (zip a msk))))"

section \<open>File paths: \<open>pathlib\<close> and \<open>np.save\<close>\<close>

text \<open>
  A path of \<open>pathlib\<close> on a POSIX system: its root (empty, one separator, or two) and
  its components.
\<close>

record posix_path =
  path_root :: string
  path_parts :: "string list"

text \<open>\<open>s.split("/")\<close> and \<open>"/".join(xs)\<close>.\<close>

fun split_sep :: "string \<Rightarrow> string list" where
  "split_sep [] = [[]]"
| "split_sep (c # cs) =
     (if c = CHR ''/'' then [] # split_sep cs
      else (case split_sep cs of x # xs \<Rightarrow> (c # x) # xs | [] \<Rightarrow> [[c]]))"

fun join_sep :: "string list \<Rightarrow> string" where
  "join_sep [] = []"
| "join_sep [x] = x"
| "join_sep (x # y # ys) = x @ ''/'' @ join_sep (y # ys)"

text \<open>
  \<open>posixpath.splitroot\<close>: no root for a relative path; exactly two leading separators
  are kept as the root; one, or three and more, give the root \<open>/\<close>.
\<close>

definition splitroot :: "string \<Rightarrow> string \<times> string" where
  "splitroot p =
     (if take 1 p \<noteq> ''/'' then ([], p)
      else if take 1 (drop 1 p) \<noteq> ''/'' \<or> take 1 (drop 2 p) = ''/'' then (''/'', drop 1 p)
      else (''//'', drop 2 p))"

text \<open>
  \<open>Path(s)\<close>: the text after the root is split at the separators; empty components and
  the component \<open>.\<close> are dropped, the component \<open>..\<close> is kept.
\<close>

definition Path :: "string \<Rightarrow> posix_path" where
  "Path s =
     (let (r, rel) = splitroot s
      in \<lparr>path_root = r, path_parts = filter (\<lambda>x. x \<noteq> [] \<and> x \<noteq> ''.'') (split_sep rel)\<rparr>)"

text \<open>\<open>str(p)\<close>: the root and the components joined; the empty path is \<open>.\<close>.\<close>

definition str_path :: "posix_path \<Rightarrow> string" where
  "str_path p =
     (if path_root p = [] \<and> path_parts p = [] then ''.''
      else path_root p @ join_sep (path_parts p))"

text \<open>\<open>p / name\<close>: a name with a root replaces \<open>p\<close>; otherwise its components follow.\<close>

definition path_div :: "posix_path \<Rightarrow> string \<Rightarrow> posix_path" where
  "path_div p name =
     (let q = Path name
      in if path_root q \<noteq> [] then q
         else p\<lparr>path_parts := path_parts p @ path_parts q\<rparr>)"

text \<open>
  The file that \<open>np.save(p, arr)\<close> writes for a path \<open>p\<close>: the extension \<open>.npy\<close> is
  appended to the name unless the name ends with it.
\<close>

definition np_save_file :: "posix_path \<Rightarrow> string" where
  "np_save_file p =
     (let file = str_path p
      in if drop (length file - 4) file = ''.npy'' then file else file @ ''.npy'')"

section \<open>The feature-matrix hand-off\<close>

text \<open>The path that \<open>do_classif\<close> passes to \<open>np.load\<close>.\<close>

definition projected_X_path :: string where
  "projected_X_path = ''../hcp900_difumo_matrics/difumo_data.npy''"

text \<open>The command line of the pre-projection driver, with its defaults.\<close>

record cli_args =
  max_images :: "int option"
  njobs :: int
  data_dir :: string
  verbose :: int
  output_path :: string

definition default_args :: cli_args where
  "default_args =
     \<lparr> max_images = None, njobs = 1, data_dir = ''/storage/store2/data/'', verbose = 0,
       output_path = ''../hcp900_difumo_matrices/difumo_data.npy'' \<rparr>"

text \<open>
  The file that the pre-projection driver writes: \<open>output_path = Path(args.output_path)\<close>,
  then \<open>np.save(output_path, X_test)\<close>.
\<close>

definition pre_project_save_path :: "cli_args \<Rightarrow> string" where
  "pre_project_save_path args = np_save_file (Path (output_path args))"

section \<open>Effects: exceptions, the collaborators' state and the program's own output\<close>

text \<open>
  A computation in a state \<open>'s\<close> that returns a value or raises. The state reached is
  kept when an exception is raised, as in Python.
\<close>

type_synonym ('a, 's) py = "'s \<Rightarrow> (error + 'a) \<times> 's"

definition return_py :: "'a \<Rightarrow> ('a, 's) py" where
  "return_py x = (\<lambda>s. (Inr x, s))"

definition bind_py :: "('a, 's) py \<Rightarrow> ('a \<Rightarrow> ('b, 's) py) \<Rightarrow> ('b, 's) py" where
  "bind_py m k = (\<lambda>s. case m s of (Inl e, s') \<Rightarrow> (Inl e, s') | (Inr x, s') \<Rightarrow> k x s')"

text \<open>A pure step that may raise.\<close>

definition of_result :: "error + 'a \<Rightarrow> ('a, 's) py" where
  "of_result r = (\<lambda>s. (r, s))"

text \<open>
  \<open>try: body except KeyError: handler\<close>. Only an exception of class \<open>KeyError\<close> raised
  by the body starts the handler, in the state the body reached.
\<close>

definition try_except_KeyError :: "('a, 's) py \<Rightarrow> ('a, 's) py \<Rightarrow> ('a, 's) py" where
  "try_except_KeyError body handler =
     (\<lambda>s. case body s of
            (Inl (KeyError k), s') \<Rightarrow> handler s'
          | (Inl e, s') \<Rightarrow> (Inl e, s')
          | (Inr x, s') \<Rightarrow> (Inr x, s'))"

text \<open>A list comprehension \<open>[body(x) for x in xs]\<close> whose body has effects.\<close>

fun comprehension :: "('a \<Rightarrow> ('b, 's) py) \<Rightarrow> 'a list \<Rightarrow> ('b list, 's) py" where
  "comprehension body [] = return_py []"
| "comprehension body (x # xs) =
     bind_py (body x) (\<lambda>y. bind_py (comprehension body xs) (\<lambda>ys. return_py (y # ys)))"

text \<open>A loop \<open>for x in xs: acc = body(acc, x)\<close> over an accumulated value.\<close>

fun for_loop :: "('c \<Rightarrow> 'a \<Rightarrow> ('c, 's) py) \<Rightarrow> 'a list \<Rightarrow> 'c \<Rightarrow> ('c, 's) py" where
  "for_loop body [] acc = return_py acc"
| "for_loop body (x # xs) acc = bind_py (body acc x) (\<lambda>acc'. for_loop body xs acc')"

text \<open>
  The arrays handed to an estimator: image paths, rows of the projected feature matrix,
  class numbers, or the pair that \<open>preprocess_label\<close> returns with its dictionary.
\<close>

datatype 'f ndarray =
    PathArray "string list"
  | FeatureArray "'f list"
  | CodeArray "nat list"
  | CodesDictTuple "nat list" label_dict

text \<open>
  The results table: \<open>pd.DataFrame(scores, columns=[...])\<close> over the list of tuples
  \<open>(method_name, name, score_split, i_split)\<close>.
\<close>

record 'v data_frame =
  df_columns :: "string list"
  df_rows :: "(string \<times> string \<times> 'v \<times> nat) list"

text \<open>
  What the program itself prints, logs and writes, in order. A file event is recorded
  once the write has returned.
\<close>

datatype 'v event =
    Print string
  | Warning string
  | Dumped string
  | CsvWritten string "'v data_frame"

text \<open>
  The state of a run: the program's own events, and the state \<open>ext\<close> of everything
  outside it (the fitted estimators, the file system, the random generators).
\<close>

record ('v, 'e) world =
  trace :: "'v event list"
  ext :: 'e

definition emit :: "'v event \<Rightarrow> (unit, ('v, 'e) world) py" where
  "emit ev = (\<lambda>w. (Inr (), w\<lparr>trace := trace w @ [ev]\<rparr>))"

definition lift_ext :: "('a, 'e) py \<Rightarrow> ('a, ('v, 'e) world) py" where
  "lift_ext m = (\<lambda>w. case m (ext w) of (r, e') \<Rightarrow> (r, w\<lparr>ext := e'\<rparr>))"

text \<open>A call of \<open>preprocess_label\<close> inside a run: its lines go to the output first.\<close>

definition call_preprocess_label ::
  "'sub label_table \<Rightarrow> label_dict option \<Rightarrow> bool \<Rightarrow> (label_result, ('v, 'e) world) py"
where
  "call_preprocess_label Y_t use_dict return_dict =
     (\<lambda>w. case preprocess_label Y_t use_dict return_dict of
            (out, r) \<Rightarrow> (r, w\<lparr>trace := trace w @ map Print out\<rparr>))"

section \<open>Augmented Estimator: \<open>AugmentedClassifier\<close>\<close>

text \<open>
  An underlying classifier. Each method receives its positional arguments as a list, so
  that a call with the wrong number of arguments is a call the method can reject; what it
  returns is a value of the collaborator's own (\<open>'v\<close>).
\<close>

record ('f, 'v, 'e) estimator =
  fit :: "'f ndarray list \<Rightarrow> ('v, 'e) py"
  predict :: "'f ndarray list \<Rightarrow> ('v, 'e) py"
  score :: "'f ndarray list \<Rightarrow> ('v, 'e) py"

text \<open>The augmentation function \<open>f(X, Y)\<close>, returning the pair \<open>(X_fake, Y_fake)\<close>.\<close>

type_synonym ('f, 'e) augmentation =
  "'f ndarray \<Rightarrow> 'f ndarray \<Rightarrow> ('f ndarray \<times> 'f ndarray, 'e) py"

text \<open>The fields \<open>self.model\<close> and \<open>self.f\<close>; \<open>None\<close> is no augmentation.\<close>

record ('f, 'v, 'e) AugmentedClassifier =
  clf_model :: "('f, 'v, 'e) estimator"
  clf_f :: "('f, 'e) augmentation option"

text \<open>
  The three methods, each called with its positional arguments (after \<open>self\<close>). Python
  raises \<open>TypeError\<close> when their number is not the number of parameters declared:
  \<open>fit(self, X, Y)\<close>, \<open>predict(self, X, y)\<close>, \<open>score(self, X, y)\<close>.
\<close>

definition AugmentedClassifier_fit ::
  "('f, 'v, 'e) AugmentedClassifier \<Rightarrow> 'f ndarray list \<Rightarrow> ('v, 'e) py"
where
  "AugmentedClassifier_fit self args =
     (case args of
        [X, Y] \<Rightarrow>
          (case clf_f self of
             None \<Rightarrow> fit (clf_model self) [X, Y]
           | Some g \<Rightarrow> bind_py (g X Y) (\<lambda>(X_fake, Y_fake). fit (clf_model self) [X_fake, Y_fake]))
      | _ \<Rightarrow> of_result (Inl (TypeError ''fit'')))"

definition AugmentedClassifier_predict ::
  "('f, 'v, 'e) AugmentedClassifier \<Rightarrow> 'f ndarray list \<Rightarrow> ('v, 'e) py"
where
  "AugmentedClassifier_predict self args =
     (case args of
        [X, y] \<Rightarrow> predict (clf_model self) [X, y]
      | _ \<Rightarrow> of_result (Inl (TypeError ''predict'')))"

definition AugmentedClassifier_score ::
  "('f, 'v, 'e) AugmentedClassifier \<Rightarrow> 'f ndarray list \<Rightarrow> ('v, 'e) py"
where
  "AugmentedClassifier_score self args =
     (case args of
        [X, y] \<Rightarrow> score (clf_model self) [X, y]
      | _ \<Rightarrow> of_result (Inl (TypeError ''score'')))"

section \<open>The collaborators\<close>

text \<open>
  What \<open>do_classif\<close> takes from scikit-learn, numpy, pathlib, pickle and pandas. Each
  operation acts on the outside state and may raise.
  \<^item> \<open>LinearDiscriminantAnalysis\<close> is the object built with
    \<open>solver="lsqr", shrinkage="auto"\<close>, \<open>RandomForestClassifier\<close> the one built with
    \<open>verbose=True\<close>.
  \<^item> \<open>ShuffleSplit n_splits train_size random_state n\<close> is the list of
    \<open>(train, test)\<close> index arrays that
    \<open>ShuffleSplit(n_splits, train_size, random_state).split(range(n))\<close> yields;
    \<open>random_state = None\<close> is the unseeded generator.
  \<^item> \<open>pickle_dump name clf\<close> is \<open>open(name, "wb")\<close> followed by
    \<open>pickle.dump(clf, file)\<close>.
\<close>

record ('f, 'v, 'ts, 'e) env =
  LinearDiscriminantAnalysis :: "('f, 'v, 'e) estimator"
  RandomForestClassifier :: "('f, 'v, 'e) estimator"
  ShuffleSplit :: "nat \<Rightarrow> 'ts \<Rightarrow> int option \<Rightarrow> nat \<Rightarrow> ((nat list \<times> nat list) list, 'e) py"
  np_load :: "string \<Rightarrow> ('f list, 'e) py"
  mkdir :: "string \<Rightarrow> (unit, 'e) py"
  pickle_dump :: "string \<Rightarrow> ('f, 'v, 'e) AugmentedClassifier \<Rightarrow> (unit, 'e) py"
  to_csv :: "string \<Rightarrow> 'v data_frame \<Rightarrow> (unit, 'e) py"

section \<open>Split Evaluator: \<open>do_split\<close>\<close>

text \<open>
  Indexing by an array of positions, \<open>a[ix]\<close>: numpy raises \<open>IndexError\<close> when a
  position is out of range.
\<close>

definition take_ix :: "'a list \<Rightarrow> nat list \<Rightarrow> error + 'a list" where
  "take_ix a ix =
     (if \<forall>i \<in> set ix. i < length a then Inr (map (\<lambda>i. a ! i) ix) else Inl IndexError)"

text \<open>
  \<open>Y_train, labels_dict = ...\<close>: unpacking the pair returned under \<open>return_dict=True\<close>.
  The call site always passes \<open>return_dict=True\<close>, so the other case does not arise
  there.
\<close>

definition unpack_pair :: "label_result \<Rightarrow> error + nat list \<times> label_dict" where
  "unpack_pair r =
     (case r of
        EncodedWithDict ks d \<Rightarrow> Inr (ks, d)
      | Encoded ks \<Rightarrow> Inl (Raised ''ValueError''))"

text \<open>The value bound to \<open>Y_test\<close>, as the array passed on to \<open>score\<close>.\<close>

definition as_ndarray :: "label_result \<Rightarrow> 'f ndarray" where
  "as_ndarray r =
     (case r of
        Encoded ks \<Rightarrow> CodeArray ks
      | EncodedWithDict ks d \<Rightarrow> CodesDictTuple ks d)"

text \<open>
  \<open>do_split\<close>, the function nested in \<open>do_classif\<close>. \<open>checkpoint_base_name\<close> is the
  path \<open>models_dir / name\<close> as \<open>str\<close> gives it.
\<close>

definition do_split ::
  "('f, 'v, 'ts, 'e) env \<Rightarrow> nat list \<times> nat list \<Rightarrow> string list \<Rightarrow> 'f list \<Rightarrow>
   'sub label_table \<Rightarrow> ('f, 'e) augmentation option \<Rightarrow> ('f, 'v, 'e) estimator \<Rightarrow>
   'sub list \<Rightarrow> int \<Rightarrow> string \<Rightarrow> nat \<Rightarrow> ('v, ('v, 'e) world) py"
where
  "do_split env split data_paths projected_X Y f model subjects n_jobs
            checkpoint_base_name i_split =
     (let checkpoint_name = checkpoint_base_name @ ''_'' @ string_of_nat i_split @ ''.pkl'';
          (train_ix, test_ix) = split
      in
      bind_py (of_result (take_ix subjects train_ix)) (\<lambda>train_subjects.
      bind_py (of_result (take_ix subjects test_ix)) (\<lambda>test_subjects.
      let train = isin (map subject Y) train_subjects;
          test = isin (map subject Y) test_subjects
      in
      bind_py (emit (Print '' >> preprocessing labels'')) (\<lambda>_.
      bind_py (of_result (bool_index Y train)) (\<lambda>Y_tr.
      bind_py (call_preprocess_label Y_tr None True) (\<lambda>r_train.
      bind_py (of_result (unpack_pair r_train)) (\<lambda>(Y_train, labels_dict).
      bind_py
        (try_except_KeyError
           (bind_py (of_result (bool_index Y test)) (\<lambda>Y_te.
            call_preprocess_label Y_te (Some labels_dict) False))
           (bind_py (emit (Warning ''NOT PASSING TRAIN LABELS DICTIONARY TO TEST SET'')) (\<lambda>_.
            bind_py (of_result (bool_index Y test)) (\<lambda>Y_te.
            call_preprocess_label Y_te None False)))) (\<lambda>Y_test.
      bind_py (of_result (bool_index data_paths train)) (\<lambda>X_train.
      bind_py (emit (Print '' >> Loading test projected images'')) (\<lambda>_.
      bind_py (of_result (bool_index projected_X test)) (\<lambda>X_test.
      let clf = \<lparr>clf_model = model, clf_f = f\<rparr> in
      bind_py (emit (Print '' >> starting fit'')) (\<lambda>_.
      bind_py (lift_ext (AugmentedClassifier_fit clf [PathArray X_train, CodeArray Y_train])) (\<lambda>_.
      bind_py (lift_ext (pickle_dump env checkpoint_name clf)) (\<lambda>_.
      bind_py (emit (Dumped checkpoint_name)) (\<lambda>_.
      bind_py (emit (Print '' >> starting score'')) (\<lambda>_.
      bind_py (lift_ext (AugmentedClassifier_score clf [FeatureArray X_test, as_ndarray Y_test]))
        (\<lambda>score_split.
      return_py score_split)))))))))))))))))"

section \<open>Classification Driver: \<open>do_classif\<close>\<close>

text \<open>The defaults of the parameters \<open>n_splits\<close> and \<open>n_jobs\<close>.\<close>

definition default_n_splits :: nat where
  "default_n_splits = 5"

definition default_n_jobs :: int where
  "default_n_jobs = 5"

text \<open>The model catalog: the two entries appended to \<open>models\<close>, in order.\<close>

definition models ::
  "('f, 'v, 'ts, 'e) env \<Rightarrow> (('f, 'v, 'e) estimator \<times> string) list"
where
  "models env = [(LinearDiscriminantAnalysis env, ''LDA''), (RandomForestClassifier env, ''RF'')]"

text \<open>
  The subject-level splits of one catalog entry:
  \<open>ShuffleSplit(n_splits=n_splits, train_size=train_size, random_state=0)\<close> split over
  \<open>range(len(subjects))\<close>. The source draws one split before each call of \<open>do_split\<close>;
  here the list of splits is drawn first, which gives the same splits for a generator that
  checks its arguments before the first split and draws from a random state of its own.
\<close>

definition generate_splits ::
  "('f, 'v, 'ts, 'e) env \<Rightarrow> 'sub list \<Rightarrow> nat \<Rightarrow> 'ts \<Rightarrow> ((nat list \<times> nat list) list, 'e) py"
where
  "generate_splits env subjects n_splits train_size =
     ShuffleSplit env n_splits train_size (Some 0) (length subjects)"

text \<open>
  \<open>do_classif\<close>. \<open>Z_inv\<close> and \<open>msk\<close> (the parameter \<open>mask\<close>) are accepted and not used.
  \<open>models_dir\<close> is rebound to \<open>Path(models_dir)\<close>; \<open>mkdir\<close> and \<open>do_split\<close> receive the
  paths as \<open>str\<close> gives them (the f-string of \<open>do_split\<close> formats its base name so).
\<close>

definition do_classif ::
  "('f, 'v, 'ts, 'e) env \<Rightarrow> string list \<Rightarrow> 'z \<Rightarrow> 'm \<Rightarrow> 'sub label_table \<Rightarrow>
   ('f, 'e) augmentation option \<Rightarrow> string \<Rightarrow> string \<Rightarrow> string \<Rightarrow> 'ts \<Rightarrow> nat \<Rightarrow> int \<Rightarrow>
   (unit, ('v, 'e) world) py"
where
  "do_classif env images_path Z_inv msk labels f method_name output_fname models_dir
              train_size n_splits n_jobs =
     bind_py (lift_ext (mkdir env (str_path (Path models_dir)))) (\<lambda>_.
     bind_py (lift_ext (np_load env projected_X_path)) (\<lambda>projected_X.
     bind_py
       (for_loop
          (\<lambda>scores (model, name).
             let subjects = unique (map subject labels);
                 model_fname = str_path (path_div (Path models_dir) name)
             in
             bind_py (lift_ext (generate_splits env subjects n_splits train_size)) (\<lambda>splits.
             bind_py
               (comprehension
                  (\<lambda>(i_split, split).
                     do_split env split images_path projected_X labels f model subjects n_jobs
                              model_fname i_split)
                  (enumerate0 splits)) (\<lambda>scores_split.
             return_py
               (scores @ map (\<lambda>(i_split, score_split). (method_name, name, score_split, i_split))
                             (enumerate0 scores_split)))))
          (models env) []) (\<lambda>scores.
     let scores_df = \<lparr>df_columns = [''method_name'', ''algo'', ''score'', ''split''],
                       df_rows = scores\<rparr>
     in
     bind_py (lift_ext (to_csv env output_fname scores_df)) (\<lambda>_.
     emit (CsvWritten output_fname scores_df)))))"

section \<open>Notions used to state the properties\<close>

text \<open>The position at which a value first occurs in a list.\<close>

definition first_occurrence :: "'a \<Rightarrow> 'a list \<Rightarrow> nat" where
  "first_occurrence v xs = length (takeWhile (\<lambda>y. y \<noteq> v) xs)"

text \<open>
  The dictionary that \<open>preprocess_label\<close> builds from a contrast column, and the class
  numbers a dictionary gives to a column it covers.
\<close>

abbreviation built_from :: "string list \<Rightarrow> label_dict" where
  "built_from cs \<equiv> zip (unique cs) [0..<length (unique cs)]"

abbreviation codes_under :: "label_dict \<Rightarrow> string list \<Rightarrow> nat list" where
  "codes_under d cs \<equiv> map (\<lambda>x. the (map_of d x)) cs"

text \<open>A computation that returns in every state.\<close>

definition never_raises :: "('a, 's) py \<Rightarrow> bool" where
  "never_raises m = (\<forall>s. \<exists>x s'. m s = (Inr x, s'))"

text \<open>The results tables written during a run, in order, each with its path.\<close>

fun csv_writes :: "'v event list \<Rightarrow> (string \<times> 'v data_frame) list" where
  "csv_writes [] = []"
| "csv_writes (CsvWritten path df # evs) = (path, df) # csv_writes evs"
| "csv_writes (ev # evs) = csv_writes evs"

text \<open>
  A computation of a run that returns in every world with a result satisfying \<open>P\<close>,
  adding events to the trace none of which is a write of the results table.
\<close>

definition quietly_returns :: "('a, ('v, 'e) world) py \<Rightarrow> ('a \<Rightarrow> bool) \<Rightarrow> bool" where
  "quietly_returns m P =
     (\<forall>w. \<exists>x w' evs. m w = (Inr x, w') \<and> P x \<and> trace w' = trace w @ evs \<and> csv_writes evs = [])"

text \<open>
  A step of a run that writes no results table: in every world, the trace it leaves is
  the trace it found followed by events none of which is a write of the table, and a value
  it returns satisfies \<open>P\<close>.
\<close>

definition writes_no_table :: "('a, ('v, 'e) world) py \<Rightarrow> ('a \<Rightarrow> bool) \<Rightarrow> bool" where
  "writes_no_table m P =
     (\<forall>w. \<exists>evs. trace (snd (m w)) = trace w @ evs \<and> csv_writes evs = []
              \<and> (case fst (m w) of Inl e \<Rightarrow> True | Inr x \<Rightarrow> P x))"

text \<open>
  A run that writes the results table last, if at all: in every world, the trace it leaves
  is the trace it found followed by new events; when it raises none of them is a write of
  the table, and when it returns the last of them is the one write of the table, of a path
  and a table satisfying \<open>R\<close>.
\<close>

definition writes_table_last ::
  "('a, ('v, 'e) world) py \<Rightarrow> (string \<Rightarrow> 'v data_frame \<Rightarrow> bool) \<Rightarrow> bool"
where
  "writes_table_last m R =
     (\<forall>w. \<exists>evs. trace (snd (m w)) = trace w @ evs
              \<and> (case fst (m w) of
                    Inl e \<Rightarrow> csv_writes evs = []
                  | Inr x \<Rightarrow> (\<exists>evs0 path df. evs = evs0 @ [CsvWritten path df]
                                 \<and> csv_writes evs0 = [] \<and> R path df)))"



text \<open>The label table of the scenario: contrasts A, B, A, C for subjects 1, 1, 2, 3.\<close>

definition example_table :: "int label_table" where
  "example_table =
     [\<lparr>contrast = ''A'', subject = 1\<rparr>, \<lparr>contrast = ''B'', subject = 1\<rparr>,
      \<lparr>contrast = ''A'', subject = 2\<rparr>, \<lparr>contrast = ''C'', subject = 3\<rparr>]"

text \<open>
  A classifier with scikit-learn's signatures, \<open>fit(X, y)\<close>, \<open>predict(X)\<close> and
  \<open>score(X, y)\<close>, each rejecting any other number of positional arguments. Its outside
  state is the list of the calls it has served; \<open>fit\<close> returns the classifier itself, by
  name.
\<close>

definition sklearn_like :: "string \<Rightarrow> ('f, string, string list) estimator" where
  "sklearn_like name =
     \<lparr> fit = (\<lambda>args e. case args of
                 [X, y] \<Rightarrow> (Inr name, e @ [name @ ''.fit''])
               | _ \<Rightarrow> (Inl (TypeError ''fit''), e)),
       predict = (\<lambda>args e. case args of
                 [X] \<Rightarrow> (Inr ''labels'', e @ [name @ ''.predict''])
               | _ \<Rightarrow> (Inl (TypeError ''predict''), e)),
       score = (\<lambda>args e. case args of
                 [X, y] \<Rightarrow> (Inr ''accuracy'', e @ [name @ ''.score''])
               | _ \<Rightarrow> (Inl (TypeError ''score''), e)) \<rparr>"

text \<open>
  Collaborators for running the driver on small inputs. Feature rows are numbers, the
  outside state is the list of calls served, \<open>train_size\<close> is a number of subjects. A
  seeded \<open>ShuffleSplit\<close> rotates the positions by the seed plus the split's number; an
  unseeded one takes the length of the outside state for seed and changes that state.
  \<open>np_load\<close> returns a matrix of five rows.
\<close>

definition toy_env :: "(nat, string, nat, string list) env" where
  "toy_env =
     \<lparr> LinearDiscriminantAnalysis = sklearn_like ''LDA'',
       RandomForestClassifier = sklearn_like ''RF'',
       ShuffleSplit = (\<lambda>n_splits train_size random_state n e.
          let seed = (case random_state of Some r \<Rightarrow> nat r | None \<Rightarrow> length e);
              e' = (case random_state of Some r \<Rightarrow> e | None \<Rightarrow> e @ [''rng''])
          in (Inr (map (\<lambda>k. (take train_size (rotate (seed + k) [0..<n]),
                               drop train_size (rotate (seed + k) [0..<n])))
                       [0..<n_splits]), e')),
       np_load = (\<lambda>path e. (Inr [10, 20, 30, 40, 50], e @ [''np.load''])),
       mkdir = (\<lambda>path e. (Inr (), e @ [''mkdir''])),
       pickle_dump = (\<lambda>name clf e. (Inr (), e @ [''pickle.dump''])),
       to_csv = (\<lambda>name df e. (Inr (), e @ [''to_csv''])) \<rparr>"

text \<open>
  The scenario's table with a fifth row: subject 4, whose only contrast D occurs for no
  other subject.
\<close>

definition example_table_D :: "int label_table" where
  "example_table_D = example_table @ [\<lparr>contrast = ''D'', subject = 4\<rparr>]"

definition example_paths :: "string list" where
  "example_paths = [''1.nii'', ''2.nii'', ''3.nii'', ''4.nii'', ''5.nii'']"

definition empty_world :: "(string, string list) world" where
  "empty_world = \<lparr>trace = [], ext = []\<rparr>"

text \<open>
  A classifier that, as scikit-learn's do, fits and scores numeric features only: \<open>fit\<close>
  and \<open>score\<close> raise on an array of image paths. An augmentation function that loads
  the images of a path array into feature rows and keeps the labels. The collaborators of
  \<open>toy_env\<close> with these classifiers for catalog.
\<close>

definition feature_classifier :: "string \<Rightarrow> (nat, string, string list) estimator" where
  "feature_classifier name =
     \<lparr> fit = (\<lambda>args e. case args of
                 [FeatureArray X, CodeArray y] \<Rightarrow> (Inr name, e @ [name @ ''.fit''])
               | [X, y] \<Rightarrow> (Inl (Raised ''ValueError''), e)
               | _ \<Rightarrow> (Inl (TypeError ''fit''), e)),
       predict = (\<lambda>args e. case args of
                 [FeatureArray X] \<Rightarrow> (Inr ''labels'', e @ [name @ ''.predict''])
               | [X] \<Rightarrow> (Inl (Raised ''ValueError''), e)
               | _ \<Rightarrow> (Inl (TypeError ''predict''), e)),
       score = (\<lambda>args e. case args of
                 [FeatureArray X, CodeArray y] \<Rightarrow>
                   (Inr (name @ '' accuracy on '' @ string_of_nat (length X)), e @ [name @ ''.score''])
               | [X, y] \<Rightarrow> (Inl (Raised ''ValueError''), e)
               | _ \<Rightarrow> (Inl (TypeError ''score''), e)) \<rparr>"

definition load_images :: "(nat, string list) augmentation" where
  "load_images X Y =
     (\<lambda>e. case X of
            PathArray ps \<Rightarrow> (Inr (FeatureArray (map length ps), Y), e @ [''f''])
          | _ \<Rightarrow> (Inl (Raised ''ValueError''), e))"

definition feature_env :: "(nat, string, nat, string list) env" where
  "feature_env =
     toy_env\<lparr>LinearDiscriminantAnalysis := feature_classifier ''LDA'',
             RandomForestClassifier := feature_classifier ''RF''\<rparr>"

section \<open>Properties of the Label Encoder\<close>

declare string_of_nat.simps [simp del]

lemma unique_acc_filter:
  "unique_acc seen xs = seen @ filter (\<lambda>y. y \<notin> set seen) (unique_acc [] xs)"
proof (induction xs arbitrary: seen)
  case Nil
  then show ?case by simp
next
  case (Cons x xs)
  have one: "unique_acc [x] xs = [x] @ filter (\<lambda>y. y \<notin> set [x]) (unique_acc [] xs)"
    by (rule Cons.IH)
  show ?case
  proof (cases "x \<in> set seen")
    case True
    have "filter (\<lambda>y. y \<notin> set seen) (filter (\<lambda>y. y \<noteq> x) (unique_acc [] xs))
            = filter (\<lambda>y. y \<notin> set seen) (unique_acc [] xs)"
      using True by (auto intro: filter_cong)
    with True one Cons.IH [of seen] show ?thesis by simp
  next
    case False
    have "filter (\<lambda>y. y \<notin> set (seen @ [x])) (unique_acc [] xs)
            = filter (\<lambda>y. y \<notin> set seen) (filter (\<lambda>y. y \<noteq> x) (unique_acc [] xs))"
      by (auto intro: filter_cong)
    with False one Cons.IH [of "seen @ [x]"] show ?thesis by simp
  qed
qed

lemma unique_Nil: "unique [] = []"
  by (simp add: unique_def)

lemma unique_Cons: "unique (x # xs) = x # filter (\<lambda>y. y \<noteq> x) (unique xs)"
  using unique_acc_filter [of "[x]" xs] by (simp add: unique_def)

lemma set_unique: "set (unique xs) = set xs"
  by (induction xs) (auto simp: unique_Nil unique_Cons)

lemma distinct_unique: "distinct (unique xs)"
  by (induction xs) (auto simp: unique_Nil unique_Cons)

lemma first_occurrence_Cons:
  "first_occurrence v (x # xs) = (if x = v then 0 else Suc (first_occurrence v xs))"
  by (simp add: first_occurrence_def)

lemma unique_first_occurrence_order:
  "sorted_wrt (<) (map (\<lambda>v. first_occurrence v xs) (unique xs))"
proof (induction xs)
  case Nil
  then show ?case by (simp add: unique_Nil)
next
  case (Cons x xs)
  have "sorted_wrt (<) (map (\<lambda>v. first_occurrence v xs) (filter (\<lambda>y. y \<noteq> x) (unique xs)))"
    using Cons.IH by (simp add: sorted_wrt_map sorted_wrt_filter)
  then have A: "sorted_wrt (<) (map (\<lambda>v. Suc (first_occurrence v xs)) (filter (\<lambda>y. y \<noteq> x) (unique xs)))"
    by (simp add: sorted_wrt_map)
  have B: "map (\<lambda>v. first_occurrence v (x # xs)) (filter (\<lambda>y. y \<noteq> x) (unique xs))
      = map (\<lambda>v. Suc (first_occurrence v xs)) (filter (\<lambda>y. y \<noteq> x) (unique xs))"
    by (rule map_cong) (auto simp: first_occurrence_Cons)
  have tl: "sorted_wrt (<) (map (\<lambda>v. first_occurrence v (x # xs)) (filter (\<lambda>y. y \<noteq> x) (unique xs)))"
    unfolding B by (rule A)
  have hd: "\<forall>v \<in> set (filter (\<lambda>y. y \<noteq> x) (unique xs)).
              first_occurrence x (x # xs) < first_occurrence v (x # xs)"
    by (auto simp: first_occurrence_Cons)
  show ?case
    unfolding unique_Cons using tl hd by simp
qed

lemma update_fresh: "k \<notin> fst ` set al \<Longrightarrow> AList.update k v al = al @ [(k, v)]"
  by (induction al) auto

lemma fold_update_enumerate:
  "distinct u \<Longrightarrow> set u \<inter> fst ` set d = {} \<Longrightarrow>
   fold (\<lambda>(k, v) d. AList.update v k d) (enumerate n u) d = d @ zip u [n..<n + length u]"
proof (induction u arbitrary: n d)
  case Nil
  then show ?case by simp
next
  case (Cons x u)
  have fresh: "x \<notin> fst ` set d" using Cons.prems by auto
  have "set u \<inter> fst ` set (d @ [(x, n)]) = {}" using Cons.prems by auto
  with Cons.IH [of "d @ [(x, n)]" "Suc n"] Cons.prems
  have "fold (\<lambda>(k, v) d. AList.update v k d) (enumerate (Suc n) u) (d @ [(x, n)])
          = (d @ [(x, n)]) @ zip u [Suc n..<Suc n + length u]"
    by simp
  moreover have "[n..<n + length (x # u)] = n # [Suc n..<Suc n + length u]"
    by (simp add: upt_rec)
  ultimately show ?case using fresh by (simp add: update_fresh)
qed

lemma build_dict_zip: "distinct u \<Longrightarrow> build_dict u = zip u [0..<length u]"
  using fold_update_enumerate [of u "[]" 0] by (simp add: build_dict_def enumerate0_def)

lemma fold_update_inverse:
  "distinct (map snd D) \<Longrightarrow> snd ` set D \<inter> fst ` set d = {} \<Longrightarrow>
   fold (\<lambda>(v, k) d. AList.update k v d) D d = d @ map (\<lambda>(v, k). (k, v)) D"
proof (induction D arbitrary: d)
  case Nil
  then show ?case by simp
next
  case (Cons p D)
  obtain v k where p: "p = (v, k)" by (cases p)
  have fresh: "k \<notin> fst ` set d" using Cons.prems p by auto
  have "snd ` set D \<inter> fst ` set (d @ [(k, v)]) = {}" using Cons.prems p by force
  with Cons.IH [of "d @ [(k, v)]"] Cons.prems
  have "fold (\<lambda>(v, k) d. AList.update k v d) D (d @ [(k, v)])
          = (d @ [(k, v)]) @ map (\<lambda>(v, k). (k, v)) D"
    by simp
  then show ?case using fresh p by (simp add: update_fresh)
qed

lemma inverse_dict_zip:
  "length u = n \<Longrightarrow> inverse_dict (zip u [0..<n]) = zip [0..<n] u"
proof -
  assume len: "length u = n"
  have "distinct (map snd (zip u [0..<n]))" using len by simp
  then have "inverse_dict (zip u [0..<n]) = map (\<lambda>(v, k). (k, v)) (zip u [0..<n])"
    using fold_update_inverse [of "zip u [0..<n]" "[]"] by (simp add: inverse_dict_def)
  also have "\<dots> = zip [0..<n] u"
    using len by (simp add: zip_commute [of "[0..<n]" u] case_prod_unfold cong: map_cong)
  finally show ?thesis .
qed

lemma apply_dict_ok:
  "set xs \<subseteq> fst ` set d \<Longrightarrow> apply_dict d xs = Inr (map (\<lambda>x. the (map_of d x)) xs)"
proof (induction xs)
  case Nil
  then show ?case by simp
next
  case (Cons x xs)
  then have "map_of d x \<noteq> None" by (simp add: map_of_eq_None_iff)
  then obtain k where "map_of d x = Some k" by blast
  with Cons show ?case by simp
qed

lemma apply_dict_KeyError:
  "\<not> set xs \<subseteq> fst ` set d \<Longrightarrow>
   apply_dict d xs = Inl (KeyError (hd (filter (\<lambda>x. x \<notin> fst ` set d) xs)))"
proof (induction xs)
  case Nil
  then show ?case by simp
next
  case (Cons x xs)
  show ?case
  proof (cases "x \<in> fst ` set d")
    case True
    then have "map_of d x \<noteq> None" by (simp add: map_of_eq_None_iff)
    then obtain k where k: "map_of d x = Some k" by blast
    from True Cons.prems have "\<not> set xs \<subseteq> fst ` set d" by auto
    with Cons.IH k True show ?thesis by simp
  next
    case False
    then have "map_of d x = None" by (simp add: map_of_eq_None_iff)
    with False show ?thesis by simp
  qed
qed

lemma map_of_zip_upt:
  "distinct u \<Longrightarrow> k < length u \<Longrightarrow> map_of (zip u [0..<length u]) (u ! k) = Some k"
  using map_of_zip_nth [of u "[0..<length u]" k] by simp

lemma map_of_zip_upt_inverse:
  "k < length u \<Longrightarrow> map_of (zip [0..<length u] u) k = Some (u ! k)"
  using map_of_zip_nth [of "[0..<length u]" u k] by simp

lemma decode_zip:
  "\<forall>c \<in> set codes. c < length u \<Longrightarrow>
   decode (zip [0..<length u] u) codes = Inr (map ((!) u) codes)"
  by (induction codes) (simp_all add: map_of_zip_upt_inverse)

lemma fst_set_zip_upt: "fst ` set (zip u [0..<length u]) = set u"
proof -
  have "map fst (zip u [0..<length u]) = u" by simp
  then show ?thesis by (metis set_map)
qed

text \<open>The class numbers computed for a table when the dictionary is built from it.\<close>

lemma apply_built_dict:
  "apply_dict (zip (unique cs) [0..<length (unique cs)]) cs
     = Inr (map (\<lambda>x. the (map_of (zip (unique cs) [0..<length (unique cs)]) x)) cs)"
  by (simp add: apply_dict_ok fst_set_zip_upt set_unique)

lemma built_code:
  assumes "c \<in> set cs"
  shows "the (map_of (zip (unique cs) [0..<length (unique cs)]) c) < length (unique cs)
         \<and> unique cs ! (the (map_of (zip (unique cs) [0..<length (unique cs)]) c)) = c"
proof -
  from assms have "c \<in> set (unique cs)" by (simp add: set_unique)
  then obtain k where k: "k < length (unique cs)" "unique cs ! k = c"
    by (auto simp: in_set_conv_nth)
  with map_of_zip_upt [OF distinct_unique k(1)] show ?thesis by simp
qed

lemma preprocess_label_None:
  "preprocess_label Y None rd =
     ([''     >>> creating Y_dict'', ''     >>> Applying Y_dict''],
      Inr (if rd then EncodedWithDict
                   (map (\<lambda>x. the (map_of (zip (unique (map contrast Y)) [0..<length (unique (map contrast Y))]) x)) (map contrast Y))
                   (zip (unique (map contrast Y)) [0..<length (unique (map contrast Y))])
           else Encoded (map (\<lambda>x. the (map_of (zip (unique (map contrast Y)) [0..<length (unique (map contrast Y))]) x)) (map contrast Y))))"
  by (simp add: preprocess_label_def apply_built_dict build_dict_zip distinct_unique)

lemma example_run:
  "preprocess_label example_table None True =
     ([''     >>> creating Y_dict'', ''     >>> Applying Y_dict''],
      Inr (EncodedWithDict [0, 1, 0, 2] [(''A'', 0), (''B'', 1), (''C'', 2)]))"
  by (simp add: preprocess_label_def example_table_def unique_def build_dict_def enumerate0_def)

text \<open>
  Claim C5. With no dictionary supplied, \<open>preprocess_label\<close> enumerates the distinct
  contrast values in the order of their first occurrence and gives them the consecutive
  class numbers 0, 1, 2, ...: the dictionary returned is the list \<open>u\<close> of distinct
  values paired with \<open>[0..<length u]\<close>, the positions of first occurrence increase along
  \<open>u\<close>, and the encoded array has one entry per row, in row order, each the class number
  of that row's contrast. For the contrasts A, B, A, C the dictionary is
  \<open>{A: 0, B: 1, C: 2}\<close> and the encoded array is \<open>[0, 1, 0, 2]\<close>.
\<close>

theorem preprocess_label_builds_dict:
  "(let cs = map contrast Y; u = unique cs in
      distinct u \<and> set u = set cs
    \<and> sorted_wrt (<) (map (\<lambda>v. first_occurrence v cs) u)
    \<and> (\<exists>codes.
         preprocess_label Y None True =
           ([''     >>> creating Y_dict'', ''     >>> Applying Y_dict''],
            Inr (EncodedWithDict codes (zip u [0..<length u])))
       \<and> preprocess_label Y None False =
           ([''     >>> creating Y_dict'', ''     >>> Applying Y_dict''], Inr (Encoded codes))
       \<and> length codes = length Y
       \<and> (\<forall>i<length Y. codes ! i < length u \<and> u ! (codes ! i) = contrast (Y ! i)
                         \<and> map_of (zip u [0..<length u]) (contrast (Y ! i)) = Some (codes ! i))))
   \<and> preprocess_label example_table None True =
       ([''     >>> creating Y_dict'', ''     >>> Applying Y_dict''],
        Inr (EncodedWithDict [0, 1, 0, 2] [(''A'', 0), (''B'', 1), (''C'', 2)]))"
proof -
  let ?cs = "map contrast Y"
  let ?u = "unique ?cs"
  let ?D = "zip ?u [0..<length ?u]"
  let ?codes = "map (\<lambda>x. the (map_of ?D x)) ?cs"
  have rows: "\<forall>i<length Y. ?codes ! i < length ?u \<and> ?u ! (?codes ! i) = contrast (Y ! i)
                 \<and> map_of ?D (contrast (Y ! i)) = Some (?codes ! i)"
  proof (intro allI impI)
    fix i assume i: "i < length Y"
    then have mem: "contrast (Y ! i) \<in> set ?cs" by simp
    from built_code [OF mem] i
    have a: "?codes ! i < length ?u" and b: "?u ! (?codes ! i) = contrast (Y ! i)" by simp_all
    from map_of_zip_upt [OF distinct_unique a] b
    have "map_of ?D (contrast (Y ! i)) = Some (?codes ! i)" by simp
    with a b show "?codes ! i < length ?u \<and> ?u ! (?codes ! i) = contrast (Y ! i)
                 \<and> map_of ?D (contrast (Y ! i)) = Some (?codes ! i)" by blast
  qed
  have "\<exists>codes.
         preprocess_label Y None True =
           ([''     >>> creating Y_dict'', ''     >>> Applying Y_dict''],
            Inr (EncodedWithDict codes ?D))
       \<and> preprocess_label Y None False =
           ([''     >>> creating Y_dict'', ''     >>> Applying Y_dict''], Inr (Encoded codes))
       \<and> length codes = length Y
       \<and> (\<forall>i<length Y. codes ! i < length ?u \<and> ?u ! (codes ! i) = contrast (Y ! i)
                         \<and> map_of ?D (contrast (Y ! i)) = Some (codes ! i))"
    by (rule exI [of _ ?codes]) (use rows in \<open>simp add: preprocess_label_None\<close>)
  then show ?thesis
    unfolding Let_def
    using distinct_unique [of ?cs] set_unique [of ?cs] unique_first_occurrence_order [of ?cs]
      example_run by blast
qed

theorem preprocess_label_builds_dict_witness:
  "unique (map contrast example_table) = [''A'', ''B'', ''C'']
   \<and> first_occurrence ''A'' (map contrast example_table) = 0
   \<and> first_occurrence ''B'' (map contrast example_table) = 1
   \<and> first_occurrence ''C'' (map contrast example_table) = 3
   \<and> preprocess_label example_table None True =
       ([''     >>> creating Y_dict'', ''     >>> Applying Y_dict''],
        Inr (EncodedWithDict [0, 1, 0, 2] [(''A'', 0), (''B'', 1), (''C'', 2)]))
   \<and> preprocess_label example_table None False =
       ([''     >>> creating Y_dict'', ''     >>> Applying Y_dict''], Inr (Encoded [0, 1, 0, 2]))
   \<and> (2::nat) < length example_table
   \<and> [''A'', ''B'', ''C''] ! ([0, 1, 0, 2] ! 2) = contrast (example_table ! 2)"
  using preprocess_label_builds_dict [of example_table]
  by (simp add: preprocess_label_def example_table_def unique_def build_dict_def enumerate0_def
      first_occurrence_def)

text \<open>
  Claim C8. The dictionary \<open>D\<close> that \<open>preprocess_label\<close> builds from a table is
  injective on the table's contrast values and defined on each of them, and decoding the
  encoded array through the inverse mapping of \<open>D\<close> gives back the contrast column, row
  by row.
\<close>

theorem preprocess_label_round_trip:
  "\<exists>codes D.
      snd (preprocess_label L None True) = Inr (EncodedWithDict codes D)
    \<and> inj_on (map_of D) (set (map contrast L))
    \<and> (\<forall>c \<in> set (map contrast L). map_of D c \<noteq> None)
    \<and> decode (inverse_dict D) codes = Inr (map contrast L)"
proof -
  let ?cs = "map contrast L"
  let ?u = "unique ?cs"
  let ?D = "zip ?u [0..<length ?u]"
  let ?codes = "map (\<lambda>x. the (map_of ?D x)) ?cs"
  have code: "\<And>c. c \<in> set ?cs \<Longrightarrow> map_of ?D c = Some (the (map_of ?D c))
                 \<and> the (map_of ?D c) < length ?u \<and> ?u ! (the (map_of ?D c)) = c"
  proof -
    fix c assume c: "c \<in> set ?cs"
    from built_code [OF c]
    have a: "the (map_of ?D c) < length ?u" and b: "?u ! (the (map_of ?D c)) = c" by simp_all
    from map_of_zip_upt [OF distinct_unique a] b
    show "map_of ?D c = Some (the (map_of ?D c))
                 \<and> the (map_of ?D c) < length ?u \<and> ?u ! (the (map_of ?D c)) = c"
      using a by simp
  qed
  have inj: "inj_on (map_of ?D) (set ?cs)"
  proof (rule inj_onI)
    fix x y assume "x \<in> set ?cs" "y \<in> set ?cs" "map_of ?D x = map_of ?D y"
    with code [of x] code [of y] show "x = y" by metis
  qed
  have dom: "\<forall>c \<in> set ?cs. map_of ?D c \<noteq> None"
    using code by (metis option.distinct(1))
  have "\<forall>c \<in> set ?codes. c < length ?u" using code by auto
  then have "decode (zip [0..<length ?u] ?u) ?codes = Inr (map ((!) ?u) ?codes)"
    by (rule decode_zip)
  moreover have "map ((!) ?u) ?codes = ?cs"
    using code by (simp add: map_idI)
  ultimately have dec: "decode (inverse_dict ?D) ?codes = Inr ?cs"
    by (simp add: inverse_dict_zip)
  have "snd (preprocess_label L None True) = Inr (EncodedWithDict ?codes ?D)"
    by (simp add: preprocess_label_None)
  with inj dom dec show ?thesis by blast
qed

theorem preprocess_label_round_trip_witness:
  "snd (preprocess_label example_table None True) =
     Inr (EncodedWithDict [0, 1, 0, 2] [(''A'', 0), (''B'', 1), (''C'', 2)])
   \<and> ''B'' \<in> set (map contrast example_table)
   \<and> map_of [(''A'', 0), (''B'', 1), (''C'', 2::nat)] ''B'' = Some 1
   \<and> decode (inverse_dict [(''A'', 0), (''B'', 1), (''C'', 2)]) [0, 1, 0, 2] =
       Inr [''A'', ''B'', ''A'', ''C'']"
  using preprocess_label_round_trip [of example_table]
  by (simp add: preprocess_label_def example_table_def unique_def build_dict_def enumerate0_def
      inverse_dict_def)

section \<open>Properties of the row masks\<close>

text \<open>
  Claim C7. For disjoint train and test subject sets, the two row masks that \<open>do_split\<close>
  computes with \<open>isin\<close> over the \<open>subject\<close> column have one entry per row, are never
  both set at a row, are set at exactly the rows whose subject is in the union of the two
  sets, and never put two rows of one subject on different sides.
\<close>

theorem split_masks_disjoint_cover:
  assumes "set train \<inter> set test = {}"
  shows "length (isin (map subject Y) train) = length Y
       \<and> length (isin (map subject Y) test) = length Y
       \<and> (\<forall>i<length Y.
            \<not> (isin (map subject Y) train ! i \<and> isin (map subject Y) test ! i)
          \<and> ((isin (map subject Y) train ! i \<or> isin (map subject Y) test ! i)
               \<longleftrightarrow> subject (Y ! i) \<in> set train \<union> set test))
       \<and> (\<forall>i<length Y. \<forall>j<length Y. subject (Y ! i) = subject (Y ! j) \<longrightarrow>
            \<not> (isin (map subject Y) train ! i \<and> isin (map subject Y) test ! j))"
  using assms by (auto simp: isin_def)

theorem split_masks_disjoint_cover_witness:
  "set [1::int] \<inter> set [2, 3] = {}
   \<and> isin (map subject example_table) [1] = [True, True, False, False]
   \<and> isin (map subject example_table) [2, 3] = [False, False, True, True]"
  using split_masks_disjoint_cover [of "[1]" "[2, 3]" example_table]
  by (simp add: isin_def example_table_def)

section \<open>The feature-matrix path\<close>

text \<open>The default output path is already in the form \<open>pathlib\<close> and \<open>np.save\<close> give it.\<close>

lemma default_save_file:
  "pre_project_save_path default_args = ''../hcp900_difumo_matrices/difumo_data.npy''"
  by code_simp

text \<open>
  Claim C1. The path from which \<open>do_classif\<close> loads the feature matrix and the default
  path to which the pre-projection driver saves it are compared as strings: the directory
  is spelt \<open>hcp900_difumo_matrics\<close> in the first and \<open>hcp900_difumo_matrices\<close> in the
  second, so the two paths differ.
\<close>

theorem difumo_data_path_mismatch:
  "projected_X_path = ''../hcp900_difumo_matrics/difumo_data.npy''
   \<and> pre_project_save_path default_args = ''../hcp900_difumo_matrices/difumo_data.npy''
   \<and> projected_X_path \<noteq> pre_project_save_path default_args"
  by (simp add: projected_X_path_def default_save_file)

section \<open>Properties of the Augmented Estimator\<close>

text \<open>
  Claim C2. \<open>score\<close> called with \<open>(X, y)\<close> is the underlying classifier's \<open>score\<close> on
  \<open>(X, y)\<close>. \<open>predict\<close> is declared with the parameters \<open>(X, y)\<close>: called with the
  features \<open>X\<close> alone it raises \<open>TypeError\<close> and never reaches the underlying classifier,
  and called with \<open>(X, y)\<close> it hands both arguments to the underlying \<open>predict\<close>. With a
  classifier of scikit-learn's signature \<open>predict(X)\<close>, the wrapper's \<open>predict\<close> on \<open>X\<close>
  raises where the classifier's own \<open>predict\<close> on \<open>X\<close> returns labels, and the wrapper's
  \<open>predict\<close> on \<open>(X, y)\<close> raises as well, the classifier rejecting the second argument.
\<close>

theorem AugmentedClassifier_predict_not_pass_through:
  "AugmentedClassifier_score self [X, y] e = score (clf_model self) [X, y] e
   \<and> AugmentedClassifier_predict self [X] e = (Inl (TypeError ''predict''), e)
   \<and> AugmentedClassifier_predict self [X, y] e = predict (clf_model self) [X, y] e
   \<and> AugmentedClassifier_predict \<lparr>clf_model = sklearn_like ''LDA'', clf_f = None\<rparr>
         [FeatureArray [1::nat, 2]] [] = (Inl (TypeError ''predict''), [])
   \<and> predict (sklearn_like ''LDA'') [FeatureArray [1::nat, 2]] []
         = (Inr ''labels'', [''LDA.predict''])
   \<and> AugmentedClassifier_predict \<lparr>clf_model = sklearn_like ''LDA'', clf_f = None\<rparr>
         [FeatureArray [1::nat, 2], CodeArray [0, 1]] [] = (Inl (TypeError ''predict''), [])"
  by (simp add: AugmentedClassifier_predict_def AugmentedClassifier_score_def sklearn_like_def
      of_result_def)

text \<open>
  Claim C3. With \<open>f = None\<close>, \<open>fit\<close> and \<open>score\<close> of the wrapper are the underlying
  classifier's \<open>fit\<close> and \<open>score\<close>, in result and in effect. \<open>predict\<close> is not: for a
  classifier of scikit-learn's signature \<open>predict(X)\<close>, the wrapper called on \<open>X\<close>
  differs from the classifier called on \<open>X\<close>.
\<close>

theorem AugmentedClassifier_no_augmentation_predict_differs:
  "AugmentedClassifier_fit \<lparr>clf_model = m, clf_f = None\<rparr> [X, Y] = fit m [X, Y]
   \<and> AugmentedClassifier_score \<lparr>clf_model = m, clf_f = None\<rparr> [X, Y] = score m [X, Y]
   \<and> AugmentedClassifier_predict \<lparr>clf_model = sklearn_like ''RF'', clf_f = None\<rparr> [X] e
       \<noteq> predict (sklearn_like ''RF'') [X] e"
  by (simp add: AugmentedClassifier_fit_def AugmentedClassifier_score_def
      AugmentedClassifier_predict_def sklearn_like_def of_result_def)

text \<open>
  Claim C10. \<open>fit\<close> of the wrapper returns what the underlying classifier's \<open>fit\<close>
  returns: with \<open>f = None\<close> it is that call on \<open>(X, Y)\<close>; with an augmentation function it
  is that call on the pair the function returned, or the function's exception. So a value
  returned by the wrapper's \<open>fit\<close> is always a value returned by the underlying \<open>fit\<close>,
  never one made by the wrapper.
\<close>

theorem AugmentedClassifier_fit_returns_model_fit:
  "AugmentedClassifier_fit \<lparr>clf_model = m, clf_f = None\<rparr> [X, Y] e = fit m [X, Y] e
   \<and> AugmentedClassifier_fit \<lparr>clf_model = m, clf_f = Some g\<rparr> [X, Y] e =
       (case g X Y e of
          (Inl err, e') \<Rightarrow> (Inl err, e')
        | (Inr (X_fake, Y_fake), e') \<Rightarrow> fit m [X_fake, Y_fake] e')
   \<and> (AugmentedClassifier_fit self [X, Y] e = (Inr r, e') \<longrightarrow>
        (\<exists>X' Y' e0. fit (clf_model self) [X', Y'] e0 = (Inr r, e')))"
proof -
  have a: "AugmentedClassifier_fit \<lparr>clf_model = m, clf_f = None\<rparr> [X, Y] e = fit m [X, Y] e"
    by (simp add: AugmentedClassifier_fit_def)
  have b: "AugmentedClassifier_fit \<lparr>clf_model = m, clf_f = Some g\<rparr> [X, Y] e =
       (case g X Y e of
          (Inl err, e') \<Rightarrow> (Inl err, e')
        | (Inr (X_fake, Y_fake), e') \<Rightarrow> fit m [X_fake, Y_fake] e')"
    by (simp add: AugmentedClassifier_fit_def bind_py_def split: prod.splits sum.splits)
  have c: "AugmentedClassifier_fit self [X, Y] e = (Inr r, e') \<longrightarrow>
        (\<exists>X' Y' e0. fit (clf_model self) [X', Y'] e0 = (Inr r, e'))"
  proof (cases "clf_f self")
    case None
    then show ?thesis by (auto simp: AugmentedClassifier_fit_def)
  next
    case (Some g)
    then show ?thesis
      by (auto simp: AugmentedClassifier_fit_def bind_py_def split: prod.splits sum.splits)
  qed
  from a b c show ?thesis by blast
qed

theorem AugmentedClassifier_fit_returns_model_fit_witness:
  "AugmentedClassifier_fit \<lparr>clf_model = sklearn_like ''LDA'', clf_f = None\<rparr>
      [PathArray [''a.nii''], CodeArray [0] :: nat ndarray] [] = (Inr ''LDA'', [''LDA.fit''])
   \<and> fit (sklearn_like ''LDA'') [PathArray [''a.nii''], CodeArray [0] :: nat ndarray] []
      = (Inr ''LDA'', [''LDA.fit''])"
  using AugmentedClassifier_fit_returns_model_fit
          [of "sklearn_like ''LDA''" "PathArray [''a.nii'']" "CodeArray [0] :: nat ndarray" "[]"]
  by (simp add: AugmentedClassifier_fit_def sklearn_like_def)

section \<open>Properties of the Split Evaluator\<close>

lemma bind_of_result_Inr: "bind_py (of_result (Inr x)) k = k x"
  by (simp add: bind_py_def of_result_def)

lemma bind_of_result_Inl: "bind_py (of_result (Inl e)) k s = (Inl e, s)"
  by (simp add: bind_py_def of_result_def)

lemma bind_return: "bind_py (return_py x) k = k x"
  by (simp add: bind_py_def return_py_def)

lemma bind_emit: "bind_py (emit ev) k w = k () (w\<lparr>trace := trace w @ [ev]\<rparr>)"
  by (simp add: bind_py_def emit_def)

lemma bind_lift_ext:
  "bind_py (lift_ext m) k w =
     (case m (ext w) of
        (Inl e, e') \<Rightarrow> (Inl e, w\<lparr>ext := e'\<rparr>)
      | (Inr x, e') \<Rightarrow> k x (w\<lparr>ext := e'\<rparr>))"
  by (simp add: bind_py_def lift_ext_def split: prod.splits sum.splits)

lemma bind_call_preprocess_label:
  "bind_py (call_preprocess_label Y_t d rd) k w =
     (case preprocess_label Y_t d rd of
        (out, Inl e) \<Rightarrow> (Inl e, w\<lparr>trace := trace w @ map Print out\<rparr>)
      | (out, Inr r) \<Rightarrow> k r (w\<lparr>trace := trace w @ map Print out\<rparr>))"
  by (simp add: bind_py_def call_preprocess_label_def split: prod.splits sum.splits)

lemma bool_index_isin:
  "bool_index Y (isin (map subject Y) S) = Inr (filter (\<lambda>r. subject r \<in> set S) Y)"
proof -
  have "map fst (filter snd (zip Y (map (\<lambda>r. subject r \<in> set S) Y)))
          = filter (\<lambda>r. subject r \<in> set S) Y"
    by (induction Y) simp_all
  then show ?thesis by (simp add: bool_index_def isin_def comp_def)
qed

lemma preprocess_label_Some_seen:
  assumes "set (map contrast Y_t) \<subseteq> fst ` set d"
  shows "preprocess_label Y_t (Some d) False =
           ([''     >>> Applying Y_dict''],
            Inr (Encoded (map (\<lambda>x. the (map_of d x)) (map contrast Y_t))))"
  using apply_dict_ok [OF assms] by (simp add: preprocess_label_def)

lemma preprocess_label_Some_unseen:
  assumes "\<not> set (map contrast Y_t) \<subseteq> fst ` set d"
  shows "preprocess_label Y_t (Some d) False =
           ([''     >>> Applying Y_dict''],
            Inl (KeyError (hd (filter (\<lambda>x. x \<notin> fst ` set d) (map contrast Y_t)))))"
  using apply_dict_KeyError [OF assms] by (simp add: preprocess_label_def)

lemma do_split_normal_form:
  fixes Y :: "'sub label_table" and w :: "('v, 'e) world"
  assumes ix: "take_ix subjects train_ix = Inr train_subjects"
              "take_ix subjects test_ix = Inr test_subjects"
    and X: "bool_index data_paths (isin (map subject Y) train_subjects) = Inr X_train"
           "bool_index projected_X (isin (map subject Y) test_subjects) = Inr X_test"
    and cs: "cs_tr = map contrast (filter (\<lambda>r. subject r \<in> set train_subjects) Y)"
            "cs_te = map contrast (filter (\<lambda>r. subject r \<in> set test_subjects) Y)"
    and clf: "clf = \<lparr>clf_model = model, clf_f = f\<rparr>"
    and name: "name = checkpoint_base_name @ ''_'' @ string_of_nat i_split @ ''.pkl''"
    and evs: "evs = [Print '' >> preprocessing labels'', Print ''     >>> creating Y_dict'',
                     Print ''     >>> Applying Y_dict'', Print ''     >>> Applying Y_dict'']
                 @ (if set cs_te \<subseteq> set cs_tr then []
                    else [Warning ''NOT PASSING TRAIN LABELS DICTIONARY TO TEST SET'',
                          Print ''     >>> creating Y_dict'', Print ''     >>> Applying Y_dict''])
                 @ [Print '' >> Loading test projected images'', Print '' >> starting fit'']"
    and Y_test: "Y_test = (if set cs_te \<subseteq> set cs_tr then codes_under (built_from cs_tr) cs_te
                           else codes_under (built_from cs_te) cs_te)"
  shows "do_split env (train_ix, test_ix) data_paths projected_X Y f model subjects n_jobs
                  checkpoint_base_name i_split w =
     (case AugmentedClassifier_fit clf [PathArray X_train, CodeArray (codes_under (built_from cs_tr) cs_tr)] (ext w) of
        (Inl e, e1) \<Rightarrow> (Inl e, w\<lparr>trace := trace w @ evs, ext := e1\<rparr>)
      | (Inr r, e1) \<Rightarrow>
          (case pickle_dump env name clf e1 of
             (Inl e, e2) \<Rightarrow> (Inl e, w\<lparr>trace := trace w @ evs, ext := e2\<rparr>)
           | (Inr u, e2) \<Rightarrow>
               (case AugmentedClassifier_score clf [FeatureArray X_test, CodeArray Y_test] e2 of
                  (res, e3) \<Rightarrow>
                    (res, w\<lparr>trace := trace w @ evs @ [Dumped name, Print '' >> starting score''],
                            ext := e3\<rparr>))))"
proof (cases "set cs_te \<subseteq> set cs_tr")
  case True
  then have seen: "set (map contrast (filter (\<lambda>r. subject r \<in> set test_subjects) Y))
                    \<subseteq> fst ` set (built_from cs_tr)"
    by (simp add: cs fst_set_zip_upt set_unique)
  show ?thesis
    unfolding do_split_def Let_def prod.case
    apply (simp only: ix X bind_of_result_Inr bind_emit bool_index_isin
           bind_call_preprocess_label preprocess_label_None prod.case sum.case if_True
           unpack_pair_def label_result.case cs [symmetric])
    apply (simp add: try_except_KeyError_def bind_of_result_Inr bool_index_isin
           bind_call_preprocess_label call_preprocess_label_def bind_py_def of_result_def
           preprocess_label_Some_seen [OF seen] cs [symmetric] True bind_emit bind_lift_ext
           emit_def lift_ext_def return_py_def
           as_ndarray_def clf name evs Y_test split: prod.splits sum.splits)
    done
next
  case False
  then have unseen: "\<not> set (map contrast (filter (\<lambda>r. subject r \<in> set test_subjects) Y))
                    \<subseteq> fst ` set (built_from cs_tr)"
    by (simp add: cs fst_set_zip_upt set_unique)
  show ?thesis
    unfolding do_split_def Let_def prod.case
    apply (simp only: ix X bind_of_result_Inr bind_emit bool_index_isin
           bind_call_preprocess_label preprocess_label_None prod.case sum.case if_True
           unpack_pair_def label_result.case cs [symmetric])
    apply (simp add: try_except_KeyError_def bind_of_result_Inr bool_index_isin
           bind_call_preprocess_label call_preprocess_label_def bind_py_def of_result_def
           preprocess_label_Some_unseen [OF unseen] preprocess_label_None
           cs [symmetric] False bind_emit bind_lift_ext
           emit_def lift_ext_def return_py_def
           as_ndarray_def clf name evs Y_test split: prod.splits sum.splits)
    done
qed

lemma try_except_other:
  "body s = (Inl e, s') \<Longrightarrow> \<forall>k. e \<noteq> KeyError k \<Longrightarrow>
   try_except_KeyError body handler s = (Inl e, s')"
  by (cases e) (simp_all add: try_except_KeyError_def)

text \<open>
  Claim C4. In \<open>do_split\<close>, when the test rows hold a contrast value that no training
  row holds, applying the dictionary built from the training rows raises \<open>KeyError\<close> in
  \<open>preprocess_label\<close>, at a test label absent from that dictionary. \<open>do_split\<close> catches
  it, logs the warning, encodes the test labels with a dictionary built from the test rows
  alone, and goes on to fit, checkpoint and score. An exception raised by the fit, by the
  checkpoint or by the scoring comes out of \<open>do_split\<close> unchanged, and the
  \<open>try\<close>/\<open>except\<close> passes on every exception that is not a \<open>KeyError\<close>.
\<close>

theorem do_split_unseen_label_fallback:
  fixes Y :: "'sub label_table" and w :: "('v, 'e) world"
  assumes ix: "take_ix subjects train_ix = Inr train_subjects"
              "take_ix subjects test_ix = Inr test_subjects"
    and X: "bool_index data_paths (isin (map subject Y) train_subjects) = Inr X_train"
           "bool_index projected_X (isin (map subject Y) test_subjects) = Inr X_test"
    and Y_tr: "bool_index Y (isin (map subject Y) train_subjects) = Inr Y_tr"
    and Y_te: "bool_index Y (isin (map subject Y) test_subjects) = Inr Y_te"
    and unseen: "\<not> set (map contrast Y_te) \<subseteq> set (map contrast Y_tr)"
  shows "\<exists>Y_train D c Y_test.
      snd (preprocess_label Y_tr None True) = Inr (EncodedWithDict Y_train D)
    \<and> snd (preprocess_label Y_te (Some D) False) = Inl (KeyError c)
    \<and> c \<in> set (map contrast Y_te) \<and> c \<notin> set (map contrast Y_tr) \<and> map_of D c = None
    \<and> snd (preprocess_label Y_te None False) = Inr (Encoded Y_test)
    \<and> do_split env (train_ix, test_ix) data_paths projected_X Y f model subjects n_jobs
                checkpoint_base_name i_split w =
       (let clf = \<lparr>clf_model = model, clf_f = f\<rparr>;
            name = checkpoint_base_name @ ''_'' @ string_of_nat i_split @ ''.pkl'';
            evs = [Print '' >> preprocessing labels'', Print ''     >>> creating Y_dict'',
                   Print ''     >>> Applying Y_dict'', Print ''     >>> Applying Y_dict'',
                   Warning ''NOT PASSING TRAIN LABELS DICTIONARY TO TEST SET'',
                   Print ''     >>> creating Y_dict'', Print ''     >>> Applying Y_dict'',
                   Print '' >> Loading test projected images'', Print '' >> starting fit'']
        in case AugmentedClassifier_fit clf [PathArray X_train, CodeArray Y_train] (ext w) of
             (Inl e, e1) \<Rightarrow> (Inl e, w\<lparr>trace := trace w @ evs, ext := e1\<rparr>)
           | (Inr r, e1) \<Rightarrow>
               (case pickle_dump env name clf e1 of
                  (Inl e, e2) \<Rightarrow> (Inl e, w\<lparr>trace := trace w @ evs, ext := e2\<rparr>)
                | (Inr u, e2) \<Rightarrow>
                    (case AugmentedClassifier_score clf [FeatureArray X_test, CodeArray Y_test] e2 of
                       (res, e3) \<Rightarrow>
                         (res, w\<lparr>trace := trace w @ evs @ [Dumped name, Print '' >> starting score''],
                                 ext := e3\<rparr>))))
    \<and> (\<forall>body handler (s :: ('v, 'e) world) e s'.
          body s = (Inl e, s') \<and> (\<forall>k. e \<noteq> KeyError k) \<longrightarrow>
          try_except_KeyError body handler s = (Inl e, s' :: ('v, 'e) world))"
proof -
  let ?cs_tr = "map contrast Y_tr" and ?cs_te = "map contrast Y_te"
  have tr: "Y_tr = filter (\<lambda>r. subject r \<in> set train_subjects) Y"
    using Y_tr by (simp add: bool_index_isin)
  have te: "Y_te = filter (\<lambda>r. subject r \<in> set test_subjects) Y"
    using Y_te by (simp add: bool_index_isin)
  let ?c = "hd (filter (\<lambda>x. x \<notin> fst ` set (built_from ?cs_tr)) ?cs_te)"
  have nonempty: "filter (\<lambda>x. x \<notin> fst ` set (built_from ?cs_tr)) ?cs_te \<noteq> []"
    using unseen by (auto simp: fst_set_zip_upt set_unique filter_empty_conv)
  then have "?c \<in> set (filter (\<lambda>x. x \<notin> fst ` set (built_from ?cs_tr)) ?cs_te)"
    by (rule hd_in_set)
  then have c_te: "?c \<in> set ?cs_te" and c_tr: "?c \<notin> fst ` set (built_from ?cs_tr)"
    by simp_all
  from c_tr have c_tr': "?c \<notin> set ?cs_tr" by (simp add: fst_set_zip_upt set_unique)
  from c_tr have c_none: "map_of (built_from ?cs_tr) ?c = None" by (simp add: map_of_eq_None_iff)
  have unseen': "\<not> set ?cs_te \<subseteq> fst ` set (built_from ?cs_tr)"
    using unseen by (simp add: fst_set_zip_upt set_unique)
  have a: "snd (preprocess_label Y_tr None True)
             = Inr (EncodedWithDict (codes_under (built_from ?cs_tr) ?cs_tr) (built_from ?cs_tr))"
    by (simp add: preprocess_label_None)
  have b: "snd (preprocess_label Y_te (Some (built_from ?cs_tr)) False) = Inl (KeyError ?c)"
    by (simp add: preprocess_label_Some_unseen [OF unseen'])
  have c: "snd (preprocess_label Y_te None False) = Inr (Encoded (codes_under (built_from ?cs_te) ?cs_te))"
    by (simp add: preprocess_label_None)
  have d: "do_split env (train_ix, test_ix) data_paths projected_X Y f model subjects n_jobs
                checkpoint_base_name i_split w =
       (let clf = \<lparr>clf_model = model, clf_f = f\<rparr>;
            name = checkpoint_base_name @ ''_'' @ string_of_nat i_split @ ''.pkl'';
            evs = [Print '' >> preprocessing labels'', Print ''     >>> creating Y_dict'',
                   Print ''     >>> Applying Y_dict'', Print ''     >>> Applying Y_dict'',
                   Warning ''NOT PASSING TRAIN LABELS DICTIONARY TO TEST SET'',
                   Print ''     >>> creating Y_dict'', Print ''     >>> Applying Y_dict'',
                   Print '' >> Loading test projected images'', Print '' >> starting fit'']
        in case AugmentedClassifier_fit clf
                  [PathArray X_train, CodeArray (codes_under (built_from ?cs_tr) ?cs_tr)] (ext w) of
             (Inl e, e1) \<Rightarrow> (Inl e, w\<lparr>trace := trace w @ evs, ext := e1\<rparr>)
           | (Inr r, e1) \<Rightarrow>
               (case pickle_dump env name clf e1 of
                  (Inl e, e2) \<Rightarrow> (Inl e, w\<lparr>trace := trace w @ evs, ext := e2\<rparr>)
                | (Inr u, e2) \<Rightarrow>
                    (case AugmentedClassifier_score clf
                            [FeatureArray X_test, CodeArray (codes_under (built_from ?cs_te) ?cs_te)] e2 of
                       (res, e3) \<Rightarrow>
                         (res, w\<lparr>trace := trace w @ evs @ [Dumped name, Print '' >> starting score''],
                                 ext := e3\<rparr>))))"
  proof -
    have cs1: "?cs_tr = map contrast (filter (\<lambda>r. subject r \<in> set train_subjects) Y)"
      by (simp only: tr)
    have cs2: "?cs_te = map contrast (filter (\<lambda>r. subject r \<in> set test_subjects) Y)"
      by (simp only: te)
    note nf = do_split_normal_form [OF ix X cs1 cs2 refl refl refl refl,
                of env f model n_jobs checkpoint_base_name i_split w]
    show ?thesis unfolding nf Let_def using unseen by (simp split: prod.splits sum.splits)
  qed
  have e: "\<forall>body handler (s :: ('v, 'e) world) e s'.
          body s = (Inl e, s') \<and> (\<forall>k. e \<noteq> KeyError k) \<longrightarrow>
          try_except_KeyError body handler s = (Inl e, s' :: ('v, 'e) world)"
    by (auto intro: try_except_other)
  from a b c_te c_tr' c_none c d e show ?thesis by blast
qed


lemma string_of_nat_0: "string_of_nat 0 = ''0''"
  by code_simp

lemmas run_defs =
  do_split_def bind_py_def return_py_def of_result_def emit_def lift_ext_def
  call_preprocess_label_def try_except_KeyError_def preprocess_label_def take_ix_def
  bool_index_def isin_def unique_def build_dict_def enumerate0_def unpack_pair_def
  as_ndarray_def AugmentedClassifier_fit_def AugmentedClassifier_score_def
  sklearn_like_def toy_env_def example_table_D_def example_table_def example_paths_def
  empty_world_def

theorem do_split_unseen_label_fallback_witness:
  "take_ix [1, 2, 3, 4 :: int] [0, 1, 2] = Inr [1, 2, 3]
   \<and> take_ix [1, 2, 3, 4 :: int] [3] = Inr [4]
   \<and> bool_index example_table_D (isin (map subject example_table_D) [1, 2, 3]) = Inr example_table
   \<and> bool_index example_table_D (isin (map subject example_table_D) [4])
        = Inr [\<lparr>contrast = ''D'', subject = 4\<rparr>]
   \<and> \<not> set (map contrast [\<lparr>contrast = ''D'', subject = 4::int\<rparr>]) \<subseteq> set (map contrast example_table)
   \<and> do_split toy_env ([0, 1, 2], [3]) example_paths [10, 20, 30, 40, 50] example_table_D None
        (sklearn_like ''LDA'') [1, 2, 3, 4] 5 ''models/LDA'' 0 empty_world =
       (Inr ''accuracy'',
        \<lparr>trace =
           [Print '' >> preprocessing labels'', Print ''     >>> creating Y_dict'',
            Print ''     >>> Applying Y_dict'', Print ''     >>> Applying Y_dict'',
            Warning ''NOT PASSING TRAIN LABELS DICTIONARY TO TEST SET'',
            Print ''     >>> creating Y_dict'', Print ''     >>> Applying Y_dict'',
            Print '' >> Loading test projected images'', Print '' >> starting fit'',
            Dumped ''models/LDA_0.pkl'', Print '' >> starting score''],
         ext = [''LDA.fit'', ''pickle.dump'', ''LDA.score'']\<rparr>)"
proof -
  have h1: "take_ix [1, 2, 3, 4 :: int] [0, 1, 2] = Inr [1, 2, 3]"
    by (simp add: take_ix_def)
  have h2: "take_ix [1, 2, 3, 4 :: int] [3] = Inr [4]"
    by (simp add: take_ix_def)
  have h3: "bool_index example_paths (isin (map subject example_table_D) [1, 2, 3])
              = Inr [''1.nii'', ''2.nii'', ''3.nii'', ''4.nii'']"
    by (simp add: bool_index_def isin_def example_table_D_def example_table_def example_paths_def)
  have h4: "bool_index [10, 20, 30, 40, 50 :: nat] (isin (map subject example_table_D) [4]) = Inr [50]"
    by (simp add: bool_index_def isin_def example_table_D_def example_table_def)
  have h5: "bool_index example_table_D (isin (map subject example_table_D) [1, 2, 3]) = Inr example_table"
    by (simp add: bool_index_def isin_def example_table_D_def example_table_def)
  have h6: "bool_index example_table_D (isin (map subject example_table_D) [4])
              = Inr [\<lparr>contrast = ''D'', subject = 4\<rparr>]"
    by (simp add: bool_index_def isin_def example_table_D_def example_table_def)
  have h7: "\<not> set (map contrast [\<lparr>contrast = ''D'', subject = 4::int\<rparr>])
              \<subseteq> set (map contrast example_table)"
    by (simp add: example_table_def)
  have run: "do_split toy_env ([0, 1, 2], [3]) example_paths [10, 20, 30, 40, 50] example_table_D None
        (sklearn_like ''LDA'') [1, 2, 3, 4] 5 ''models/LDA'' 0 empty_world =
       (Inr ''accuracy'',
        \<lparr>trace =
           [Print '' >> preprocessing labels'', Print ''     >>> creating Y_dict'',
            Print ''     >>> Applying Y_dict'', Print ''     >>> Applying Y_dict'',
            Warning ''NOT PASSING TRAIN LABELS DICTIONARY TO TEST SET'',
            Print ''     >>> creating Y_dict'', Print ''     >>> Applying Y_dict'',
            Print '' >> Loading test projected images'', Print '' >> starting fit'',
            Dumped ''models/LDA_0.pkl'', Print '' >> starting score''],
         ext = [''LDA.fit'', ''pickle.dump'', ''LDA.score'']\<rparr>)"
    using do_split_unseen_label_fallback [OF h1 h2 h3 h4 h5 h6 h7, of toy_env None "sklearn_like ''LDA''" 5 "''models/LDA''" 0
              empty_world]
    by (simp add: run_defs string_of_nat_0)
  from h1 h2 h5 h6 h7 run show ?thesis by blast
qed

section \<open>Properties of the Classification Driver\<close>



lemma csv_writes_append: "csv_writes (xs @ ys) = csv_writes xs @ csv_writes ys"
  by (induction xs rule: csv_writes.induct) simp_all

lemma take_ix_in_range:
  "\<forall>i \<in> set ix. i < length a \<Longrightarrow> take_ix a ix = Inr (map (\<lambda>i. a ! i) ix)"
  by (simp add: take_ix_def)

lemma bool_index_same_length:
  "length a = length Y \<Longrightarrow> \<exists>xs. bool_index a (isin (map subject Y) S) = Inr xs"
  by (simp add: bool_index_def isin_def)

lemma do_split_succeeds:
  fixes Y :: "'sub label_table" and w :: "('v, 'e) world"
  assumes ix: "\<forall>i \<in> set train_ix \<union> set test_ix. i < length subjects"
    and len: "length data_paths = length Y" "length projected_X = length Y"
    and fit_ok: "\<forall>X Y. never_raises
                   (AugmentedClassifier_fit \<lparr>clf_model = model, clf_f = f\<rparr> [PathArray X, CodeArray Y])"
    and score_ok: "\<forall>X Y. never_raises (score model [FeatureArray X, CodeArray Y])"
    and dump_ok: "\<forall>name clf. never_raises (pickle_dump env name clf)"
  shows "\<exists>v w' evs. do_split env (train_ix, test_ix) data_paths projected_X Y f model subjects
                        n_jobs checkpoint_base_name i_split w = (Inr v, w')
                    \<and> trace w' = trace w @ evs \<and> csv_writes evs = []"
proof -
  from ix have t1: "take_ix subjects train_ix = Inr (map (\<lambda>i. subjects ! i) train_ix)"
    and t2: "take_ix subjects test_ix = Inr (map (\<lambda>i. subjects ! i) test_ix)"
    by (simp_all add: take_ix_in_range)
  from bool_index_same_length [OF len(1)] obtain X_train
    where x1: "bool_index data_paths (isin (map subject Y) (map (\<lambda>i. subjects ! i) train_ix)) = Inr X_train"
    by blast
  from bool_index_same_length [OF len(2)] obtain X_test
    where x2: "bool_index projected_X (isin (map subject Y) (map (\<lambda>i. subjects ! i) test_ix)) = Inr X_test"
    by blast
  note nf = do_split_normal_form [OF t1 t2 x1 x2 refl refl refl refl refl refl,
              of env f model n_jobs checkpoint_base_name i_split w]
  let ?clf = "\<lparr>clf_model = model, clf_f = f\<rparr>"
  from fit_ok
  obtain r e1 where a: "AugmentedClassifier_fit ?clf
      [PathArray X_train,
       CodeArray (codes_under (built_from (map contrast (filter (\<lambda>r. subject r \<in> set (map (\<lambda>i. subjects ! i) train_ix)) Y)))
                   (map contrast (filter (\<lambda>r. subject r \<in> set (map (\<lambda>i. subjects ! i) train_ix)) Y)))]
      (ext w) = (Inr r, e1)"
    unfolding never_raises_def by blast
  from dump_ok obtain u e2
    where b: "pickle_dump env (checkpoint_base_name @ ''_'' @ string_of_nat i_split @ ''.pkl'') ?clf e1
               = (Inr u, e2)"
    unfolding never_raises_def by blast
  from score_ok
  obtain v e3 where c: "AugmentedClassifier_score ?clf
      [FeatureArray X_test,
       CodeArray (if set (map contrast (filter (\<lambda>r. subject r \<in> set (map (\<lambda>i. subjects ! i) test_ix)) Y))
                      \<subseteq> set (map contrast (filter (\<lambda>r. subject r \<in> set (map (\<lambda>i. subjects ! i) train_ix)) Y))
                  then codes_under (built_from (map contrast (filter (\<lambda>r. subject r \<in> set (map (\<lambda>i. subjects ! i) train_ix)) Y)))
                         (map contrast (filter (\<lambda>r. subject r \<in> set (map (\<lambda>i. subjects ! i) test_ix)) Y))
                  else codes_under (built_from (map contrast (filter (\<lambda>r. subject r \<in> set (map (\<lambda>i. subjects ! i) test_ix)) Y)))
                         (map contrast (filter (\<lambda>r. subject r \<in> set (map (\<lambda>i. subjects ! i) test_ix)) Y)))]
      e2 = (Inr v, e3)"
    unfolding never_raises_def AugmentedClassifier_score_def by (simp split: if_splits) blast
  show ?thesis
    unfolding nf a b c prod.case sum.case
    by (intro exI conjI, rule refl) (auto simp: csv_writes_append)
qed

lemma quietly_returnsD:
  assumes "quietly_returns m P"
  obtains x w' evs where "m w = (Inr x, w')" "P x" "trace w' = trace w @ evs" "csv_writes evs = []"
  using assms unfolding quietly_returns_def by blast

lemma quietly_returns_return: "P x \<Longrightarrow> quietly_returns (return_py x) P"
  by (simp add: quietly_returns_def return_py_def)

lemma quietly_returns_bind:
  assumes m: "quietly_returns m P"
    and k: "\<And>x. P x \<Longrightarrow> quietly_returns (k x) Q"
  shows "quietly_returns (bind_py m k) Q"
  unfolding quietly_returns_def
proof
  fix w
  from m obtain x w1 evs1
    where 1: "m w = (Inr x, w1)" "P x" "trace w1 = trace w @ evs1" "csv_writes evs1 = []"
    by (rule quietly_returnsD)
  from k [OF 1(2)] obtain y w2 evs2
    where 2: "k x w1 = (Inr y, w2)" "Q y" "trace w2 = trace w1 @ evs2" "csv_writes evs2 = []"
    by (rule quietly_returnsD)
  from 1 2 have "bind_py m k w = (Inr y, w2)" "trace w2 = trace w @ (evs1 @ evs2)"
    "csv_writes (evs1 @ evs2) = []"
    by (simp_all add: bind_py_def csv_writes_append)
  with 2(2) show "\<exists>x w' evs. bind_py m k w = (Inr x, w') \<and> Q x \<and> trace w' = trace w @ evs
                     \<and> csv_writes evs = []"
    by blast
qed

lemma quietly_returns_lift_ext:
  fixes m :: "('a, 'e) py"
  assumes "\<And>e. \<exists>x e'. m e = (Inr x, e') \<and> P x"
  shows "quietly_returns (lift_ext m :: ('a, ('v, 'e) world) py) P"
  unfolding quietly_returns_def
proof
  fix w :: "('v, 'e) world"
  from assms [of "ext w"] obtain x e' where "m (ext w) = (Inr x, e')" "P x" by blast
  then have "lift_ext m w = (Inr x, w\<lparr>ext := e'\<rparr>)" "trace (w\<lparr>ext := e'\<rparr>) = trace w @ []"
    by (simp_all add: lift_ext_def)
  with \<open>P x\<close> show "\<exists>x w' evs. lift_ext m w = (Inr x, w') \<and> P x \<and> trace w' = trace w @ evs
                     \<and> csv_writes evs = []"
    by (metis csv_writes.simps(1))
qed

lemma quietly_returns_weaken:
  "quietly_returns m P \<Longrightarrow> (\<And>x. P x \<Longrightarrow> Q x) \<Longrightarrow> quietly_returns m Q"
  unfolding quietly_returns_def by meson

lemma quietly_returns_comprehension:
  assumes "\<And>x. x \<in> set xs \<Longrightarrow> quietly_returns (body x) (\<lambda>_. True)"
  shows "quietly_returns (comprehension body xs) (\<lambda>ys. length ys = length xs)"
  using assms
proof (induction xs)
  case Nil
  show ?case by (simp add: quietly_returns_return)
next
  case (Cons x xs)
  have tl: "quietly_returns (comprehension body xs) (\<lambda>ys. length ys = length xs)"
    by (rule Cons.IH) (simp add: Cons.prems)
  have hd: "quietly_returns (body x) (\<lambda>_. True)"
    by (rule Cons.prems) simp
  show ?case
    unfolding comprehension.simps
    by (rule quietly_returns_bind [OF hd], rule quietly_returns_bind [OF tl],
        rule quietly_returns_return) simp
qed

lemma quietly_returns_do_split:
  fixes Y :: "'sub label_table"
  assumes "\<forall>i \<in> set train_ix \<union> set test_ix. i < length subjects"
    and "length data_paths = length Y" "length projected_X = length Y"
    and "\<forall>X Y. never_raises
           (AugmentedClassifier_fit \<lparr>clf_model = model, clf_f = f\<rparr> [PathArray X, CodeArray Y])"
    and "\<forall>X Y. never_raises (score model [FeatureArray X, CodeArray Y])"
    and "\<forall>name clf. never_raises (pickle_dump env name clf)"
  shows "quietly_returns
           (do_split env (train_ix, test_ix) data_paths projected_X Y f model subjects n_jobs
                     checkpoint_base_name i_split) (\<lambda>_. True)"
  unfolding quietly_returns_def
  using do_split_succeeds [OF assms] by blast

lemma map_fst_enumerate0: "map fst (enumerate0 xs) = [0..<length xs]"
  by (simp add: enumerate0_def)

lemma set_enumerate0: "(i, x) \<in> set (enumerate0 xs) \<Longrightarrow> x \<in> set xs"
  by (auto simp: enumerate0_def in_set_enumerate_eq)

text \<open>One pass of the driver's loop over the catalog.\<close>

lemma model_iteration:
  fixes labels :: "'sub label_table"
  assumes len: "length images_path = length labels" "length projected_X = length labels"
    and splits_ok: "\<forall>e. \<exists>splits e'.
            generate_splits env subjects n_splits train_size e = (Inr splits, e')
          \<and> length splits = n_splits
          \<and> (\<forall>(train_ix, test_ix) \<in> set splits.
                \<forall>i \<in> set train_ix \<union> set test_ix. i < length subjects)"
    and fit_ok: "\<forall>X Y. never_raises
                   (AugmentedClassifier_fit \<lparr>clf_model = model, clf_f = f\<rparr> [PathArray X, CodeArray Y])"
    and score_ok: "\<forall>X Y. never_raises (score model [FeatureArray X, CodeArray Y])"
    and dump_ok: "\<forall>name clf. never_raises (pickle_dump env name clf)"
  shows "quietly_returns
     (bind_py (lift_ext (generate_splits env subjects n_splits train_size)) (\<lambda>splits.
      bind_py
        (comprehension
           (\<lambda>(i_split, split).
              do_split env split images_path projected_X labels f model subjects n_jobs
                       model_fname i_split)
           (enumerate0 splits)) (\<lambda>scores_split.
      return_py
        (scores @ map (\<lambda>(i_split, score_split). (method_name, name, score_split, i_split))
                      (enumerate0 scores_split)))))
     (\<lambda>rows. \<exists>ss. length ss = n_splits
               \<and> rows = scores @ map (\<lambda>(i, s). (method_name, name, s, i)) (enumerate0 ss))"
proof (rule quietly_returns_bind [where P = "\<lambda>splits. length splits = n_splits
          \<and> (\<forall>(train_ix, test_ix) \<in> set splits.
                \<forall>i \<in> set train_ix \<union> set test_ix. i < length subjects)"])
  show "quietly_returns (lift_ext (generate_splits env subjects n_splits train_size))
          (\<lambda>splits. length splits = n_splits
          \<and> (\<forall>(train_ix, test_ix) \<in> set splits.
                \<forall>i \<in> set train_ix \<union> set test_ix. i < length subjects))"
    by (rule quietly_returns_lift_ext) (use splits_ok in blast)
next
  fix splits :: "(nat list \<times> nat list) list"
  assume sp: "length splits = n_splits
          \<and> (\<forall>(train_ix, test_ix) \<in> set splits.
                \<forall>i \<in> set train_ix \<union> set test_ix. i < length subjects)"
  have each: "quietly_returns
           ((\<lambda>(i_split, split).
              do_split env split images_path projected_X labels f model subjects n_jobs
                       model_fname i_split) x) (\<lambda>_. True)"
    if "x \<in> set (enumerate0 splits)" for x
  proof -
    obtain i train_ix test_ix where x: "x = (i, (train_ix, test_ix))" by (metis prod.exhaust)
    with that have "(train_ix, test_ix) \<in> set splits" by (auto dest: set_enumerate0)
    with sp have "\<forall>i \<in> set train_ix \<union> set test_ix. i < length subjects" by blast
    from quietly_returns_do_split [OF this len fit_ok score_ok dump_ok]
    show ?thesis by (simp add: x)
  qed
  have comp: "quietly_returns
        (comprehension
           (\<lambda>(i_split, split).
              do_split env split images_path projected_X labels f model subjects n_jobs
                       model_fname i_split)
           (enumerate0 splits)) (\<lambda>ys. length ys = n_splits)"
  proof -
    have "quietly_returns
        (comprehension
           (\<lambda>(i_split, split).
              do_split env split images_path projected_X labels f model subjects n_jobs
                       model_fname i_split)
           (enumerate0 splits)) (\<lambda>ys. length ys = length (enumerate0 splits))"
      by (rule quietly_returns_comprehension) (rule each)
    moreover have "length (enumerate0 splits) = n_splits"
      using sp by (simp add: enumerate0_def)
    ultimately show ?thesis by simp
  qed
  show "quietly_returns
      (bind_py
        (comprehension
           (\<lambda>(i_split, split).
              do_split env split images_path projected_X labels f model subjects n_jobs
                       model_fname i_split)
           (enumerate0 splits)) (\<lambda>scores_split.
      return_py
        (scores @ map (\<lambda>(i_split, score_split). (method_name, name, score_split, i_split))
                      (enumerate0 scores_split))))
     (\<lambda>rows. \<exists>ss. length ss = n_splits
               \<and> rows = scores @ map (\<lambda>(i, s). (method_name, name, s, i)) (enumerate0 ss))"
    by (rule quietly_returns_bind [OF comp], rule quietly_returns_return) blast
qed

lemma upt_0_5: "[0..<5] = [0, 1, 2, 3, 4 :: nat]"
  by code_simp

lemma split_of_row:
  "map (\<lambda>(m, a, s, i). i) (map (\<lambda>(i, s). (method_name, name, s, i)) xs) = map fst xs"
  by (induction xs) auto

lemma algo_of_row:
  "map (\<lambda>(m, a, s, i). a) (map (\<lambda>(i, s). (method_name, name, s, i)) xs)
     = replicate (length xs) name"
  by (induction xs) auto

lemma method_of_row:
  "map (\<lambda>(m, a, s, i). m) (map (\<lambda>(i, s). (method_name, name, s, i)) xs)
     = replicate (length xs) method_name"
  by (induction xs) auto

lemma length_enumerate0: "length (enumerate0 xs) = length xs"
  by (simp add: enumerate0_def)

lemma rows_split_column:
  "map (\<lambda>(m, a, s, i). i) (map (\<lambda>(i, s). (method_name, name, s, i)) (enumerate0 ss))
     = [0..<length ss]"
  by (simp only: split_of_row map_fst_enumerate0)

lemma rows_algo_column:
  "map (\<lambda>(m, a, s, i). a) (map (\<lambda>(i, s). (method_name, name, s, i)) (enumerate0 ss))
     = replicate (length ss) name"
  by (simp only: algo_of_row length_enumerate0)

lemma rows_method_column:
  "map (\<lambda>(m, a, s, i). m) (map (\<lambda>(i, s). (method_name, name, s, i)) (enumerate0 ss))
     = replicate (length ss) method_name"
  by (simp only: method_of_row length_enumerate0)

lemma bind_py_eq: "m w = (Inr x, w') \<Longrightarrow> bind_py m k w = k x w'"
  by (simp add: bind_py_def)

text \<open>
  A sufficient condition for \<open>do_classif\<close> to return: collaborators that return, in every
  state, on the arguments the driver hands them.
\<close>

lemma do_classif_returns:
  fixes labels :: "'sub label_table" and w :: "('v, 'e) world"
  assumes mkdir_ok: "never_raises (mkdir env (str_path (Path models_dir)))"
    and load_ok: "\<forall>e. \<exists>projected_X e'.
            np_load env projected_X_path e = (Inr projected_X, e')
          \<and> length projected_X = length labels"
    and paths: "length images_path = length labels"
    and splits_ok: "\<forall>e. \<exists>splits e'.
            generate_splits env (unique (map subject labels)) 5 train_size e = (Inr splits, e')
          \<and> length splits = 5
          \<and> (\<forall>(train_ix, test_ix) \<in> set splits.
                \<forall>i \<in> set train_ix \<union> set test_ix. i < length (unique (map subject labels)))"
    and models_ok: "\<forall>(model, name) \<in> set (models env).
            (\<forall>X Y. never_raises
                    (AugmentedClassifier_fit \<lparr>clf_model = model, clf_f = f\<rparr>
                       [PathArray X, CodeArray Y]))
          \<and> (\<forall>X Y. never_raises (score model [FeatureArray X, CodeArray Y]))"
    and dump_ok: "\<forall>name clf. never_raises (pickle_dump env name clf)"
    and csv_ok: "\<forall>df. never_raises (to_csv env output_fname df)"
  shows "\<exists>w' rows evs.
      do_classif env images_path Z_inv msk labels f method_name output_fname models_dir
                 train_size 5 n_jobs w = (Inr (), w')
    \<and> trace w' = trace w @ evs
          @ [CsvWritten output_fname
               \<lparr>df_columns = [''method_name'', ''algo'', ''score'', ''split''], df_rows = rows\<rparr>]
    \<and> csv_writes evs = []
    \<and> length rows = 10
    \<and> map (\<lambda>(m, a, s, i). i) rows = [0, 1, 2, 3, 4, 0, 1, 2, 3, 4]
    \<and> map (\<lambda>(m, a, s, i). a) rows
         = [''LDA'', ''LDA'', ''LDA'', ''LDA'', ''LDA'', ''RF'', ''RF'', ''RF'', ''RF'', ''RF'']
    \<and> map (\<lambda>(m, a, s, i). m) rows = replicate 10 method_name
    \<and> (\<forall>k < 5. count_list (map (\<lambda>(m, a, s, i). i) rows) k = 2)"
proof -
  let ?subjects = "unique (map subject labels)"
  from mkdir_ok obtain u1 e1
    where mk: "mkdir env (str_path (Path models_dir)) (ext w) = (Inr u1, e1)"
    unfolding never_raises_def by blast
  from load_ok obtain PX e2 where ld: "np_load env projected_X_path e1 = (Inr PX, e2)"
    and lenPX: "length PX = length labels"
    by blast
  let ?w2 = "w\<lparr>ext := e2\<rparr>"
  from models_ok have lda: "\<forall>X Y. never_raises
         (AugmentedClassifier_fit \<lparr>clf_model = LinearDiscriminantAnalysis env, clf_f = f\<rparr>
            [PathArray X, CodeArray Y])"
      "\<forall>X Y. never_raises (score (LinearDiscriminantAnalysis env) [FeatureArray X, CodeArray Y])"
    and rf: "\<forall>X Y. never_raises
         (AugmentedClassifier_fit \<lparr>clf_model = RandomForestClassifier env, clf_f = f\<rparr>
            [PathArray X, CodeArray Y])"
      "\<forall>X Y. never_raises (score (RandomForestClassifier env) [FeatureArray X, CodeArray Y])"
    by (simp_all add: models_def)
  let ?loop = "for_loop
          (\<lambda>scores (model, name).
             let subjects = unique (map subject labels);
                 model_fname = str_path (path_div (Path models_dir) name)
             in
             bind_py (lift_ext (generate_splits env subjects 5 train_size)) (\<lambda>splits.
             bind_py
               (comprehension
                  (\<lambda>(i_split, split).
                     do_split env split images_path PX labels f model subjects n_jobs
                              model_fname i_split)
                  (enumerate0 splits)) (\<lambda>scores_split.
             return_py
               (scores @ map (\<lambda>(i_split, score_split). (method_name, name, score_split, i_split))
                             (enumerate0 scores_split)))))
          (models env) []"
  have loop: "quietly_returns ?loop
       (\<lambda>rows. \<exists>ss1 ss2. length ss1 = 5 \<and> length ss2 = 5
           \<and> rows = map (\<lambda>(i, s). (method_name, ''LDA'', s, i)) (enumerate0 ss1)
                  @ map (\<lambda>(i, s). (method_name, ''RF'', s, i)) (enumerate0 ss2))"
    unfolding models_def for_loop.simps prod.case Let_def
    apply (rule quietly_returns_bind
             [OF model_iteration [OF paths lenPX splits_ok lda dump_ok]])
    apply (rule quietly_returns_bind
             [OF model_iteration [OF paths lenPX splits_ok rf dump_ok]])
    apply (rule quietly_returns_return)
    apply auto
    done
  from loop obtain rows w3 evs
    where run: "?loop ?w2 = (Inr rows, w3)"
      and rows: "\<exists>ss1 ss2. length ss1 = 5 \<and> length ss2 = 5
           \<and> rows = map (\<lambda>(i, s). (method_name, ''LDA'', s, i)) (enumerate0 ss1)
                  @ map (\<lambda>(i, s). (method_name, ''RF'', s, i)) (enumerate0 ss2)"
      and tr: "trace w3 = trace ?w2 @ evs" and quiet: "csv_writes evs = []"
    by (rule quietly_returnsD)
  let ?df = "\<lparr>df_columns = [''method_name'', ''algo'', ''score'', ''split''], df_rows = rows\<rparr>"
  from csv_ok obtain u4 e4 where csv: "to_csv env output_fname ?df (ext w3) = (Inr u4, e4)"
    unfolding never_raises_def by blast
  let ?w' = "w3\<lparr>ext := e4, trace := trace w3 @ [CsvWritten output_fname ?df]\<rparr>"
  have s1: "lift_ext (mkdir env (str_path (Path models_dir))) w = (Inr u1, w\<lparr>ext := e1\<rparr>)"
    by (simp add: lift_ext_def mk)
  have s2: "lift_ext (np_load env projected_X_path) (w\<lparr>ext := e1\<rparr>) = (Inr PX, ?w2)"
    by (simp add: lift_ext_def ld)
  have s4: "lift_ext (to_csv env output_fname ?df) w3 = (Inr u4, w3\<lparr>ext := e4\<rparr>)"
    by (simp add: lift_ext_def csv)
  have s5: "emit (CsvWritten output_fname ?df) (w3\<lparr>ext := e4\<rparr>) = (Inr (), ?w')"
    by (simp add: emit_def)
  have result: "do_classif env images_path Z_inv msk labels f method_name output_fname models_dir
                 train_size 5 n_jobs w = (Inr (), ?w')"
  proof -
    note b1 = bind_py_eq [where m = "lift_ext (mkdir env (str_path (Path models_dir)))" and w = w,
                            OF s1]
    note b2 = bind_py_eq [where m = "lift_ext (np_load env projected_X_path)"
                            and w = "w\<lparr>ext := e1\<rparr>", OF s2]
    note b3 = bind_py_eq [where m = ?loop and w = ?w2, OF run]
    note b4 = bind_py_eq [where m = "lift_ext (to_csv env output_fname ?df)" and w = w3, OF s4]
    show ?thesis
      unfolding do_classif_def Let_def by (simp only: b1 b2 b3 [unfolded Let_def] b4 s5)
  qed
  have trace: "trace ?w' = trace w @ evs @ [CsvWritten output_fname ?df]"
    using tr by simp
  from rows obtain ss1 ss2 where l1: "length ss1 = 5" and l2: "length ss2 = 5"
    and rows_eq: "rows = map (\<lambda>(i, s). (method_name, ''LDA'', s, i)) (enumerate0 ss1)
                  @ map (\<lambda>(i, s). (method_name, ''RF'', s, i)) (enumerate0 ss2)"
    by blast
  have n: "length rows = 10"
    by (simp add: rows_eq l1 l2 enumerate0_def)
  have split_col: "map (\<lambda>(m, a, s, i). i) rows = [0, 1, 2, 3, 4, 0, 1, 2, 3, 4]"
    by (simp only: rows_eq map_append rows_split_column l1 l2 upt_0_5 append.simps)
  have algo_col: "map (\<lambda>(m, a, s, i). a) rows
         = [''LDA'', ''LDA'', ''LDA'', ''LDA'', ''LDA'', ''RF'', ''RF'', ''RF'', ''RF'', ''RF'']"
    by (simp only: rows_eq map_append rows_algo_column l1 l2) (simp add: numeral_eq_Suc)
  have method_col: "map (\<lambda>(m, a, s, i). m) rows = replicate 10 method_name"
    by (simp only: rows_eq map_append rows_method_column l1 l2 replicate_add [symmetric]) simp
  have twice: "\<forall>k < 5. count_list (map (\<lambda>(m, a, s, i). i) rows) k = 2"
  proof (intro allI impI)
    fix k :: nat assume "k < 5"
    then have "k = 0 \<or> k = 1 \<or> k = 2 \<or> k = 3 \<or> k = 4" by arith
    then show "count_list (map (\<lambda>(m, a, s, i). i) rows) k = 2"
      unfolding split_col by auto
  qed
  show ?thesis
    by (rule exI [of _ ?w'], rule exI [of _ rows], rule exI [of _ evs])
       (intro conjI result trace quiet n split_col algo_col method_col twice)
qed

section \<open>The results table of a run\<close>

lemma writes_no_tableI:
  assumes "\<And>w. \<exists>evs. trace (snd (m w)) = trace w @ evs \<and> csv_writes evs = []
              \<and> (case fst (m w) of Inl e \<Rightarrow> True | Inr x \<Rightarrow> P x)"
  shows "writes_no_table m P"
  using assms unfolding writes_no_table_def by blast

lemma writes_no_tableD:
  assumes "writes_no_table m P"
  shows "\<exists>evs. trace (snd (m w)) = trace w @ evs \<and> csv_writes evs = []
           \<and> (\<forall>x. fst (m w) = Inr x \<longrightarrow> P x)"
proof -
  from assms obtain evs where "trace (snd (m w)) = trace w @ evs" "csv_writes evs = []"
    "case fst (m w) of Inl e \<Rightarrow> True | Inr x \<Rightarrow> P x"
    unfolding writes_no_table_def by blast
  then show ?thesis by (intro exI [of _ evs]) (auto split: sum.splits)
qed

lemma bind_py_fst_snd:
  "bind_py m k w = (case fst (m w) of Inl e \<Rightarrow> (Inl e, snd (m w)) | Inr x \<Rightarrow> k x (snd (m w)))"
  by (simp add: bind_py_def split: prod.splits sum.splits)

lemma wnt_return: "P x \<Longrightarrow> writes_no_table (return_py x) P"
  by (simp add: writes_no_table_def return_py_def)

lemma wnt_of_result: "writes_no_table (of_result r) (\<lambda>_. True)"
  by (simp add: writes_no_table_def of_result_def split: sum.splits)

lemma wnt_emit_Print: "writes_no_table (emit (Print s)) (\<lambda>_. True)"
  by (simp add: writes_no_table_def emit_def)

lemma wnt_emit_Warning: "writes_no_table (emit (Warning s)) (\<lambda>_. True)"
  by (simp add: writes_no_table_def emit_def)

lemma wnt_emit_Dumped: "writes_no_table (emit (Dumped s)) (\<lambda>_. True)"
  by (simp add: writes_no_table_def emit_def)

lemma wnt_lift_ext:
  fixes m :: "('a, 'e) py"
  assumes "\<And>e x e'. m e = (Inr x, e') \<Longrightarrow> P x"
  shows "writes_no_table (lift_ext m :: ('a, ('v, 'e) world) py) P"
proof (rule writes_no_tableI)
  fix w :: "('v, 'e) world"
  obtain r e' where m: "m (ext w) = (r, e')" by (cases "m (ext w)")
  then have "trace (snd (lift_ext m w)) = trace w @ []" "fst (lift_ext m w) = r"
    by (simp_all add: lift_ext_def)
  moreover have "case r of Inl e \<Rightarrow> True | Inr x \<Rightarrow> P x"
    using assms m by (cases r) auto
  ultimately show "\<exists>evs. trace (snd (lift_ext m w)) = trace w @ evs \<and> csv_writes evs = []
              \<and> (case fst (lift_ext m w) of Inl e \<Rightarrow> True | Inr x \<Rightarrow> P x)"
    by (metis csv_writes.simps(1))
qed

lemma csv_writes_Print: "csv_writes (map Print out) = []"
  by (induction out) simp_all

lemma wnt_call_preprocess_label:
  assumes "\<And>x. snd (preprocess_label Y_t d rd) = Inr x \<Longrightarrow> P x"
  shows "writes_no_table (call_preprocess_label Y_t d rd :: (label_result, ('v, 'e) world) py) P"
proof (rule writes_no_tableI)
  fix w :: "('v, 'e) world"
  obtain out r where p: "preprocess_label Y_t d rd = (out, r)" by (cases "preprocess_label Y_t d rd")
  have "case r of Inl e \<Rightarrow> True | Inr x \<Rightarrow> P x"
    using assms p by (cases r) auto
  with p show "\<exists>evs. trace (snd (call_preprocess_label Y_t d rd w)) = trace w @ evs
              \<and> csv_writes evs = []
              \<and> (case fst (call_preprocess_label Y_t d rd w) of Inl e \<Rightarrow> True | Inr x \<Rightarrow> P x)"
    by (intro exI [of _ "map Print out"]) (simp add: call_preprocess_label_def csv_writes_Print)
qed

lemma wnt_bind:
  assumes m: "writes_no_table m P"
    and k: "\<And>x. P x \<Longrightarrow> writes_no_table (k x) Q"
  shows "writes_no_table (bind_py m k) Q"
proof (rule writes_no_tableI)
  fix w
  from writes_no_tableD [OF m, of w]
  obtain evs1 where 1: "trace (snd (m w)) = trace w @ evs1" "csv_writes evs1 = []"
    and P: "\<forall>x. fst (m w) = Inr x \<longrightarrow> P x"
    by blast
  show "\<exists>evs. trace (snd (bind_py m k w)) = trace w @ evs \<and> csv_writes evs = []
              \<and> (case fst (bind_py m k w) of Inl e \<Rightarrow> True | Inr x \<Rightarrow> Q x)"
  proof (cases "fst (m w)")
    case (Inl e)
    with 1 show ?thesis by (intro exI [of _ evs1]) (simp add: bind_py_fst_snd)
  next
    case (Inr x)
    from P Inr have "P x" by blast
    from writes_no_tableD [OF k [OF this], of "snd (m w)"] obtain evs2
      where 2: "trace (snd (k x (snd (m w)))) = trace (snd (m w)) @ evs2" "csv_writes evs2 = []"
        and Q: "\<forall>y. fst (k x (snd (m w))) = Inr y \<longrightarrow> Q y"
      by blast
    have "case fst (k x (snd (m w))) of Inl e \<Rightarrow> True | Inr y \<Rightarrow> Q y"
      using Q by (cases "fst (k x (snd (m w)))") auto
    with 1 2 Inr show ?thesis
      by (intro exI [of _ "evs1 @ evs2"]) (simp add: bind_py_fst_snd csv_writes_append)
  qed
qed

lemma wnt_weaken:
  assumes "writes_no_table m P" and "\<And>x. P x \<Longrightarrow> Q x"
  shows "writes_no_table m Q"
proof (rule writes_no_tableI)
  fix w
  from writes_no_tableD [OF assms(1), of w]
  obtain evs where 1: "trace (snd (m w)) = trace w @ evs" "csv_writes evs = []"
    and P: "\<forall>x. fst (m w) = Inr x \<longrightarrow> P x"
    by blast
  have "case fst (m w) of Inl e \<Rightarrow> True | Inr x \<Rightarrow> Q x"
    using P assms(2) by (cases "fst (m w)") auto
  with 1 show "\<exists>evs. trace (snd (m w)) = trace w @ evs \<and> csv_writes evs = []
              \<and> (case fst (m w) of Inl e \<Rightarrow> True | Inr x \<Rightarrow> Q x)"
    by blast
qed

lemma wnt_try:
  assumes body: "writes_no_table body Q" and handler: "writes_no_table handler Q"
  shows "writes_no_table (try_except_KeyError body handler) Q"
proof (rule writes_no_tableI)
  fix w
  from writes_no_tableD [OF body, of w]
  obtain evs1 where 1: "trace (snd (body w)) = trace w @ evs1" "csv_writes evs1 = []"
    and Q1: "\<forall>x. fst (body w) = Inr x \<longrightarrow> Q x"
    by blast
  from writes_no_tableD [OF handler, of "snd (body w)"] obtain evs2
    where 2: "trace (snd (handler (snd (body w)))) = trace (snd (body w)) @ evs2"
      "csv_writes evs2 = []"
      and Q2: "\<forall>x. fst (handler (snd (body w))) = Inr x \<longrightarrow> Q x"
    by blast
  obtain r w1 where b: "body w = (r, w1)" by (cases "body w")
  show "\<exists>evs. trace (snd (try_except_KeyError body handler w)) = trace w @ evs
              \<and> csv_writes evs = []
              \<and> (case fst (try_except_KeyError body handler w) of Inl e \<Rightarrow> True | Inr x \<Rightarrow> Q x)"
  proof (cases r)
    case (Inr x)
    with b 1 Q1 show ?thesis
      by (intro exI [of _ evs1]) (simp add: try_except_KeyError_def)
  next
    case (Inl e)
    show ?thesis
    proof (cases "\<exists>k. e = KeyError k")
      case True
      then obtain k where e: "e = KeyError k" by blast
      have "case fst (handler w1) of Inl e \<Rightarrow> True | Inr x \<Rightarrow> Q x"
        using Q2 b by (cases "fst (handler w1)") auto
      with b Inl e 1 2 show ?thesis
        by (intro exI [of _ "evs1 @ evs2"])
           (simp add: try_except_KeyError_def csv_writes_append)
    next
      case False
      with b Inl 1 show ?thesis
        by (intro exI [of _ evs1]) (cases e; simp add: try_except_KeyError_def)
    qed
  qed
qed

lemma wnt_comprehension:
  assumes "\<And>x. x \<in> set xs \<Longrightarrow> writes_no_table (body x) Q"
  shows "writes_no_table (comprehension body xs)
           (\<lambda>ys. length ys = length xs \<and> (\<forall>y \<in> set ys. Q y))"
  using assms
proof (induction xs)
  case Nil
  show ?case by (simp add: wnt_return)
next
  case (Cons x xs)
  have tl: "writes_no_table (comprehension body xs)
              (\<lambda>ys. length ys = length xs \<and> (\<forall>y \<in> set ys. Q y))"
    by (rule Cons.IH) (simp add: Cons.prems)
  have hd: "writes_no_table (body x) Q"
    by (rule Cons.prems) simp
  show ?case
    unfolding comprehension.simps
    by (rule wnt_bind [OF hd], rule wnt_bind [OF tl], rule wnt_return) simp
qed

lemma preprocess_label_False_Encoded:
  "snd (preprocess_label Y_t d False) = Inr x \<Longrightarrow> \<exists>ks. x = Encoded ks"
  by (auto simp: preprocess_label_def Let_def split: option.splits sum.splits prod.splits)

lemma wnt_call_Encoded:
  "writes_no_table (call_preprocess_label Y_t d False) (\<lambda>x. \<exists>ks. x = Encoded ks)"
  by (rule wnt_call_preprocess_label) (rule preprocess_label_False_Encoded)

lemma wnt_call_any: "writes_no_table (call_preprocess_label Y_t d rd) (\<lambda>_. True)"
  by (rule wnt_call_preprocess_label) simp

lemma wnt_lift_ext_any: "writes_no_table (lift_ext m) (\<lambda>_. True)"
  by (rule wnt_lift_ext) simp

lemma do_split_writes_no_table:
  "writes_no_table
     (do_split env split data_paths projected_X Y f model subjects n_jobs checkpoint_base_name
               i_split)
     (\<lambda>v. \<exists>X ks e e'. score model [FeatureArray X, CodeArray ks] e = (Inr v, e'))"
proof -
  obtain train_ix test_ix where split: "split = (train_ix, test_ix)" by (cases split)
  show ?thesis
    unfolding do_split_def Let_def split prod.case
    apply (rule wnt_bind [OF wnt_of_result])
    apply (rule wnt_bind [OF wnt_of_result])
    apply (rule wnt_bind [OF wnt_emit_Print])
    apply (rule wnt_bind [OF wnt_of_result])
    apply (rule wnt_bind [OF wnt_call_any])
    apply (rule wnt_bind [OF wnt_of_result])
    apply (simp only: split_paired_all prod.case)
    apply (rule wnt_bind [where P = "\<lambda>x. \<exists>ks. x = Encoded ks"])
     apply (rule wnt_try)
      apply (rule wnt_bind [OF wnt_of_result])
      apply (rule wnt_call_Encoded)
     apply (rule wnt_bind [OF wnt_emit_Warning])
     apply (rule wnt_bind [OF wnt_of_result])
     apply (rule wnt_call_Encoded)
    apply (rule wnt_bind [OF wnt_of_result])
    apply (rule wnt_bind [OF wnt_emit_Print])
    apply (rule wnt_bind [OF wnt_of_result])
    apply (rule wnt_bind [OF wnt_emit_Print])
    apply (rule wnt_bind [OF wnt_lift_ext_any])
    apply (rule wnt_bind [OF wnt_lift_ext_any])
    apply (rule wnt_bind [OF wnt_emit_Dumped])
    apply (rule wnt_bind [OF wnt_emit_Print])
    apply (rule wnt_bind
             [where P = "\<lambda>v. \<exists>X ks e e'. score model [FeatureArray X, CodeArray ks] e = (Inr v, e')"])
     apply (rule wnt_lift_ext)
     apply (clarsimp simp: AugmentedClassifier_score_def as_ndarray_def)
     apply blast
    apply (rule wnt_return)
    apply assumption
    done
qed

lemma wtl_bind:
  assumes m: "writes_no_table m P"
    and k: "\<And>x. P x \<Longrightarrow> writes_table_last (k x) R"
  shows "writes_table_last (bind_py m k) R"
  unfolding writes_table_last_def
proof
  fix w
  from writes_no_tableD [OF m, of w]
  obtain evs1 where 1: "trace (snd (m w)) = trace w @ evs1" "csv_writes evs1 = []"
    and P: "\<forall>x. fst (m w) = Inr x \<longrightarrow> P x"
    by blast
  show "\<exists>evs. trace (snd (bind_py m k w)) = trace w @ evs
          \<and> (case fst (bind_py m k w) of
                Inl e \<Rightarrow> csv_writes evs = []
              | Inr x \<Rightarrow> (\<exists>evs0 path df. evs = evs0 @ [CsvWritten path df]
                             \<and> csv_writes evs0 = [] \<and> R path df))"
  proof (cases "fst (m w)")
    case (Inl e)
    with 1 show ?thesis by (intro exI [of _ evs1]) (simp add: bind_py_fst_snd)
  next
    case (Inr x)
    with P have "P x" by blast
    from k [OF this, unfolded writes_table_last_def, rule_format, of "snd (m w)"]
    obtain evs2 where 2: "trace (snd (k x (snd (m w)))) = trace (snd (m w)) @ evs2"
      and c: "case fst (k x (snd (m w))) of
                Inl e \<Rightarrow> csv_writes evs2 = []
              | Inr y \<Rightarrow> (\<exists>evs0 path df. evs2 = evs0 @ [CsvWritten path df]
                             \<and> csv_writes evs0 = [] \<and> R path df)"
      by blast
    show ?thesis
    proof (cases "fst (k x (snd (m w)))")
      case (Inl e)
      with 1 2 c Inr show ?thesis
        by (intro exI [of _ "evs1 @ evs2"]) (simp add: bind_py_fst_snd csv_writes_append)
    next
      case r: (Inr y)
      with c obtain evs0 path df where e: "evs2 = evs0 @ [CsvWritten path df]"
        "csv_writes evs0 = []" "R path df"
        by auto
      have "\<exists>evs0' path df. evs1 @ evs2 = evs0' @ [CsvWritten path df]
               \<and> csv_writes evs0' = [] \<and> R path df"
        using e 1 by (intro exI [of _ "evs1 @ evs0"] exI [of _ path] exI [of _ df])
                     (simp add: csv_writes_append)
      with 1 2 Inr r show ?thesis
        by (intro exI [of _ "evs1 @ evs2"]) (simp add: bind_py_fst_snd)
    qed
  qed
qed

lemma wtl_emit: "R path df \<Longrightarrow> writes_table_last (emit (CsvWritten path df)) R"
  unfolding writes_table_last_def
  by (intro allI exI [of _ "[CsvWritten path df]"]) (simp add: emit_def)

text \<open>One pass of the driver's loop over the catalog, whether or not it returns.\<close>

lemma model_pass:
  fixes labels :: "'sub label_table"
  assumes five: "\<forall>e splits e'. generate_splits env subjects n_splits train_size e = (Inr splits, e')
                   \<longrightarrow> length splits = n_splits"
  shows "writes_no_table
     (bind_py (lift_ext (generate_splits env subjects n_splits train_size)) (\<lambda>splits.
      bind_py
        (comprehension
           (\<lambda>(i_split, split).
              do_split env split images_path projected_X labels f model subjects n_jobs
                       model_fname i_split)
           (enumerate0 splits)) (\<lambda>scores_split.
      return_py
        (scores @ map (\<lambda>(i_split, score_split). (method_name, name, score_split, i_split))
                      (enumerate0 scores_split)))))
     (\<lambda>rows. \<exists>ss. length ss = n_splits
               \<and> (\<forall>s \<in> set ss. \<exists>X ks e e'.
                      score model [FeatureArray X, CodeArray ks] e = (Inr s, e'))
               \<and> rows = scores @ map (\<lambda>(i, s). (method_name, name, s, i)) (enumerate0 ss))"
proof (rule wnt_bind [where P = "\<lambda>splits. length splits = n_splits"])
  show "writes_no_table (lift_ext (generate_splits env subjects n_splits train_size))
          (\<lambda>splits. length splits = n_splits)"
    by (rule wnt_lift_ext) (use five in blast)
next
  fix splits :: "(nat list \<times> nat list) list"
  assume sp: "length splits = n_splits"
  have each: "writes_no_table
           ((\<lambda>(i_split, split).
              do_split env split images_path projected_X labels f model subjects n_jobs
                       model_fname i_split) x)
           (\<lambda>v. \<exists>X ks e e'. score model [FeatureArray X, CodeArray ks] e = (Inr v, e'))"
    for x
    by (cases x) (simp add: do_split_writes_no_table)
  have comp: "writes_no_table
        (comprehension
           (\<lambda>(i_split, split).
              do_split env split images_path projected_X labels f model subjects n_jobs
                       model_fname i_split)
           (enumerate0 splits))
        (\<lambda>ys. length ys = length (enumerate0 splits)
            \<and> (\<forall>y \<in> set ys. \<exists>X ks e e'.
                   score model [FeatureArray X, CodeArray ks] e = (Inr y, e')))"
    by (rule wnt_comprehension) (rule each)
  show "writes_no_table
      (bind_py
        (comprehension
           (\<lambda>(i_split, split).
              do_split env split images_path projected_X labels f model subjects n_jobs
                       model_fname i_split)
           (enumerate0 splits)) (\<lambda>scores_split.
      return_py
        (scores @ map (\<lambda>(i_split, score_split). (method_name, name, score_split, i_split))
                      (enumerate0 scores_split))))
     (\<lambda>rows. \<exists>ss. length ss = n_splits
               \<and> (\<forall>s \<in> set ss. \<exists>X ks e e'.
                      score model [FeatureArray X, CodeArray ks] e = (Inr s, e'))
               \<and> rows = scores @ map (\<lambda>(i, s). (method_name, name, s, i)) (enumerate0 ss))"
    by (rule wnt_bind [OF comp], rule wnt_return) (auto simp: length_enumerate0 sp)
qed

text \<open>The whole run: the table is written last, if at all.\<close>

lemma do_classif_writes_table_last:
  fixes labels :: "'sub label_table"
  assumes five: "\<forall>e splits e'.
            generate_splits env (unique (map subject labels)) n_splits train_size e = (Inr splits, e')
            \<longrightarrow> length splits = n_splits"
  shows "writes_table_last
     (do_classif env images_path Z_inv msk labels f method_name output_fname models_dir
                 train_size n_splits n_jobs)
     (\<lambda>path df. path = output_fname
        \<and> (\<exists>ss1 ss2. length ss1 = n_splits \<and> length ss2 = n_splits
             \<and> (\<forall>s \<in> set ss1. \<exists>X ks e e'.
                    score (LinearDiscriminantAnalysis env) [FeatureArray X, CodeArray ks] e
                      = (Inr s, e'))
             \<and> (\<forall>s \<in> set ss2. \<exists>X ks e e'.
                    score (RandomForestClassifier env) [FeatureArray X, CodeArray ks] e
                      = (Inr s, e'))
             \<and> df = \<lparr>df_columns = [''method_name'', ''algo'', ''score'', ''split''],
                     df_rows = map (\<lambda>(i, s). (method_name, ''LDA'', s, i)) (enumerate0 ss1)
                             @ map (\<lambda>(i, s). (method_name, ''RF'', s, i)) (enumerate0 ss2)\<rparr>))"
  unfolding do_classif_def models_def for_loop.simps prod.case Let_def
  apply (rule wtl_bind [OF wnt_lift_ext_any])
  apply (rule wtl_bind [OF wnt_lift_ext_any])
  apply (rule wtl_bind [where P = "\<lambda>rows. \<exists>ss1 ss2. length ss1 = n_splits \<and> length ss2 = n_splits
             \<and> (\<forall>s \<in> set ss1. \<exists>X ks e e'.
                    score (LinearDiscriminantAnalysis env) [FeatureArray X, CodeArray ks] e
                      = (Inr s, e'))
             \<and> (\<forall>s \<in> set ss2. \<exists>X ks e e'.
                    score (RandomForestClassifier env) [FeatureArray X, CodeArray ks] e
                      = (Inr s, e'))
             \<and> rows = map (\<lambda>(i, s). (method_name, ''LDA'', s, i)) (enumerate0 ss1)
                             @ map (\<lambda>(i, s). (method_name, ''RF'', s, i)) (enumerate0 ss2)"])
   apply (rule wnt_bind [OF model_pass [OF five]])
   apply (rule wnt_bind [OF model_pass [OF five]])
   apply (rule wnt_return)
   apply (elim exE conjE)
   apply (intro exI conjI)
       prefer 5
       apply (simp only: append_Nil)
      apply assumption+
  apply (rule wtl_bind [OF wnt_lift_ext_any])
  apply (rule wtl_emit)
  apply simp
  done

text \<open>
  Claim C9. Every run of \<open>do_classif\<close> with \<open>n_splits = 5\<close>, the generator yielding five
  splits whenever it yields any, ends in one of two ways. Either it raises, and then it
  has written no results table; or it returns, and then the last thing it did was to write
  one results table, the only one of the run, to \<open>output_fname\<close>, with the columns
  \<open>method_name, algo, score, split\<close> and ten rows: the five splits 0 to 4 of LDA, then the
  five splits 0 to 4 of RF, so that each split number occurs exactly twice, each row
  carrying the method name and a score that the \<open>score\<close> method of its model returned on
  an array of features and an array of class numbers.
\<close>

theorem do_classif_results_table:
  fixes labels :: "'sub label_table" and w :: "('v, 'e) world"
  assumes five: "\<forall>e splits e'.
            generate_splits env (unique (map subject labels)) 5 train_size e = (Inr splits, e')
            \<longrightarrow> length splits = 5"
  shows "\<exists>evs.
      trace (snd (do_classif env images_path Z_inv msk labels f method_name output_fname
                             models_dir train_size 5 n_jobs w)) = trace w @ evs
    \<and> (case fst (do_classif env images_path Z_inv msk labels f method_name output_fname
                             models_dir train_size 5 n_jobs w) of
          Inl e \<Rightarrow> csv_writes evs = []
        | Inr u \<Rightarrow>
            (\<exists>evs0 rows.
                evs = evs0 @ [CsvWritten output_fname
                               \<lparr>df_columns = [''method_name'', ''algo'', ''score'', ''split''],
                                df_rows = rows\<rparr>]
              \<and> csv_writes evs0 = []
              \<and> length rows = 10
              \<and> map (\<lambda>(m, a, s, i). i) rows = [0, 1, 2, 3, 4, 0, 1, 2, 3, 4]
              \<and> map (\<lambda>(m, a, s, i). a) rows
                   = [''LDA'', ''LDA'', ''LDA'', ''LDA'', ''LDA'', ''RF'', ''RF'', ''RF'', ''RF'', ''RF'']
              \<and> map (\<lambda>(m, a, s, i). m) rows = replicate 10 method_name
              \<and> (\<forall>k < 5. count_list (map (\<lambda>(m, a, s, i). i) rows) k = 2)
              \<and> (\<forall>(m, a, s, i) \<in> set (take 5 rows). \<exists>X ks e e'.
                    score (LinearDiscriminantAnalysis env) [FeatureArray X, CodeArray ks] e
                      = (Inr s, e'))
              \<and> (\<forall>(m, a, s, i) \<in> set (drop 5 rows). \<exists>X ks e e'.
                    score (RandomForestClassifier env) [FeatureArray X, CodeArray ks] e
                      = (Inr s, e'))))"
proof -
  let ?run = "do_classif env images_path Z_inv msk labels f method_name output_fname
                         models_dir train_size 5 n_jobs w"
  from do_classif_writes_table_last [OF five, unfolded writes_table_last_def, rule_format,
         of images_path Z_inv msk f method_name output_fname models_dir n_jobs w]
  obtain evs where tr: "trace (snd ?run) = trace w @ evs"
    and c: "case fst ?run of
              Inl e \<Rightarrow> csv_writes evs = []
            | Inr x \<Rightarrow> (\<exists>evs0 path df. evs = evs0 @ [CsvWritten path df]
                 \<and> csv_writes evs0 = []
                 \<and> path = output_fname
                 \<and> (\<exists>ss1 ss2. length ss1 = 5 \<and> length ss2 = 5
                     \<and> (\<forall>s \<in> set ss1. \<exists>X ks e e'.
                            score (LinearDiscriminantAnalysis env) [FeatureArray X, CodeArray ks] e
                              = (Inr s, e'))
                     \<and> (\<forall>s \<in> set ss2. \<exists>X ks e e'.
                            score (RandomForestClassifier env) [FeatureArray X, CodeArray ks] e
                              = (Inr s, e'))
                     \<and> df = \<lparr>df_columns = [''method_name'', ''algo'', ''score'', ''split''],
                             df_rows = map (\<lambda>(i, s). (method_name, ''LDA'', s, i)) (enumerate0 ss1)
                                     @ map (\<lambda>(i, s). (method_name, ''RF'', s, i)) (enumerate0 ss2)\<rparr>))"
    by blast
  show ?thesis
  proof (cases "fst ?run")
    case (Inl e)
    with tr c show ?thesis by (intro exI [of _ evs]) simp
  next
    case (Inr u)
    with c obtain evs0 ss1 ss2
      where evs: "evs = evs0 @ [CsvWritten output_fname
                    \<lparr>df_columns = [''method_name'', ''algo'', ''score'', ''split''],
                     df_rows = map (\<lambda>(i, s). (method_name, ''LDA'', s, i)) (enumerate0 ss1)
                             @ map (\<lambda>(i, s). (method_name, ''RF'', s, i)) (enumerate0 ss2)\<rparr>]"
        and quiet: "csv_writes evs0 = []"
        and l1: "length ss1 = 5" and l2: "length ss2 = 5"
        and q1: "\<forall>s \<in> set ss1. \<exists>X ks e e'.
                    score (LinearDiscriminantAnalysis env) [FeatureArray X, CodeArray ks] e
                      = (Inr s, e')"
        and q2: "\<forall>s \<in> set ss2. \<exists>X ks e e'.
                    score (RandomForestClassifier env) [FeatureArray X, CodeArray ks] e
                      = (Inr s, e')"
      by auto
    let ?A = "map (\<lambda>(i, s). (method_name, ''LDA'', s, i)) (enumerate0 ss1)"
    let ?B = "map (\<lambda>(i, s). (method_name, ''RF'', s, i)) (enumerate0 ss2)"
    let ?rows = "?A @ ?B"
    have lA: "length ?A = 5" by (simp add: length_enumerate0 l1)
    have n: "length ?rows = 10"
      by (simp add: l1 l2 length_enumerate0)
    have split_col: "map (\<lambda>(m, a, s, i). i) ?rows = [0, 1, 2, 3, 4, 0, 1, 2, 3, 4]"
      by (simp only: map_append rows_split_column l1 l2 upt_0_5 append.simps)
    have algo_col: "map (\<lambda>(m, a, s, i). a) ?rows
         = [''LDA'', ''LDA'', ''LDA'', ''LDA'', ''LDA'', ''RF'', ''RF'', ''RF'', ''RF'', ''RF'']"
      by (simp only: map_append rows_algo_column l1 l2) (simp add: numeral_eq_Suc)
    have method_col: "map (\<lambda>(m, a, s, i). m) ?rows = replicate 10 method_name"
      by (simp only: map_append rows_method_column l1 l2 replicate_add [symmetric]) simp
    have twice: "\<forall>k < 5. count_list (map (\<lambda>(m, a, s, i). i) ?rows) k = 2"
    proof (intro allI impI)
      fix k :: nat assume "k < 5"
      then have "k = 0 \<or> k = 1 \<or> k = 2 \<or> k = 3 \<or> k = 4" by arith
      then show "count_list (map (\<lambda>(m, a, s, i). i) ?rows) k = 2"
        unfolding split_col by auto
    qed
    have tk: "take 5 ?rows = ?A" and dr: "drop 5 ?rows = ?B"
      using lA by simp_all
    have lda: "\<forall>(m, a, s, i) \<in> set (take 5 ?rows). \<exists>X ks e e'.
                 score (LinearDiscriminantAnalysis env) [FeatureArray X, CodeArray ks] e
                   = (Inr s, e')"
      unfolding tk using q1 by (auto dest: set_enumerate0)
    have rf: "\<forall>(m, a, s, i) \<in> set (drop 5 ?rows). \<exists>X ks e e'.
                 score (RandomForestClassifier env) [FeatureArray X, CodeArray ks] e
                   = (Inr s, e')"
      unfolding dr using q2 by (auto dest: set_enumerate0)
    have "\<exists>evs0 rows.
                evs = evs0 @ [CsvWritten output_fname
                               \<lparr>df_columns = [''method_name'', ''algo'', ''score'', ''split''],
                                df_rows = rows\<rparr>]
              \<and> csv_writes evs0 = []
              \<and> length rows = 10
              \<and> map (\<lambda>(m, a, s, i). i) rows = [0, 1, 2, 3, 4, 0, 1, 2, 3, 4]
              \<and> map (\<lambda>(m, a, s, i). a) rows
                   = [''LDA'', ''LDA'', ''LDA'', ''LDA'', ''LDA'', ''RF'', ''RF'', ''RF'', ''RF'', ''RF'']
              \<and> map (\<lambda>(m, a, s, i). m) rows = replicate 10 method_name
              \<and> (\<forall>k < 5. count_list (map (\<lambda>(m, a, s, i). i) rows) k = 2)
              \<and> (\<forall>(m, a, s, i) \<in> set (take 5 rows). \<exists>X ks e e'.
                    score (LinearDiscriminantAnalysis env) [FeatureArray X, CodeArray ks] e
                      = (Inr s, e'))
              \<and> (\<forall>(m, a, s, i) \<in> set (drop 5 rows). \<exists>X ks e e'.
                    score (RandomForestClassifier env) [FeatureArray X, CodeArray ks] e
                      = (Inr s, e'))"
      by (rule exI [of _ evs0], rule exI [of _ ?rows])
         (intro conjI evs quiet n split_col algo_col method_col twice lda rf)
    with tr Inr show ?thesis by (intro exI [of _ evs]) simp
  qed
qed

text \<open>
  Two runs on the scenario's table with five rows, under classifiers that fit numeric
  features only. With the augmentation \<open>load_images\<close> the run returns; with no augmentation
  the first fit receives image paths and raises.
\<close>

lemma feature_run_returns:
  "fst (do_classif feature_env example_paths () () example_table_D (Some load_images) ''aug''
                   ''out.csv'' ''models/'' 3 5 5 empty_world) = Inr ()"
proof -
  have n: "length (unique (map subject example_table_D)) = 4"
    by (simp add: unique_def example_table_D_def example_table_def)
  have h1: "never_raises (mkdir feature_env (str_path (Path ''models/'')))"
    by (simp add: never_raises_def feature_env_def toy_env_def)
  have h2: "\<forall>e. \<exists>projected_X e'.
            np_load feature_env projected_X_path e = (Inr projected_X, e')
          \<and> length projected_X = length example_table_D"
    by (simp add: feature_env_def toy_env_def example_table_D_def example_table_def)
  have h3: "length example_paths = length example_table_D"
    by (simp add: example_paths_def example_table_D_def example_table_def)
  have h4: "\<forall>e. \<exists>splits e'.
            generate_splits feature_env (unique (map subject example_table_D)) 5 3 e
              = (Inr splits, e')
          \<and> length splits = 5
          \<and> (\<forall>(train_ix, test_ix) \<in> set splits.
                \<forall>i \<in> set train_ix \<union> set test_ix.
                  i < length (unique (map subject example_table_D)))"
    by (auto simp: n generate_splits_def feature_env_def toy_env_def Let_def
             dest!: in_set_takeD in_set_dropD)
  have h5: "\<forall>(model, name) \<in> set (models feature_env).
            (\<forall>X Y. never_raises
                    (AugmentedClassifier_fit \<lparr>clf_model = model, clf_f = Some load_images\<rparr>
                       [PathArray X, CodeArray Y]))
          \<and> (\<forall>X Y. never_raises (score model [FeatureArray X, CodeArray Y]))"
    by (simp add: models_def feature_env_def toy_env_def feature_classifier_def never_raises_def
          AugmentedClassifier_fit_def bind_py_def load_images_def)
  have h7: "\<forall>name clf. never_raises (pickle_dump feature_env name clf)"
    by (simp add: feature_env_def toy_env_def never_raises_def)
  have h8: "\<forall>df. never_raises (to_csv feature_env ''out.csv'' df)"
    by (simp add: feature_env_def toy_env_def never_raises_def)
  from do_classif_returns [OF h1 h2 h3 h4 h5 h7 h8, of "()" "()" "''aug''" 5 empty_world]
  obtain w' where "do_classif feature_env example_paths () () example_table_D (Some load_images)
                     ''aug'' ''out.csv'' ''models/'' 3 5 5 empty_world = (Inr (), w')"
    by blast
  then show ?thesis by simp
qed


lemma upt_0_4: "[0..<4] = [0, 1, 2, 3 :: nat]"
  by code_simp

lemma feature_run_raises:
  "fst (do_classif feature_env example_paths () () example_table_D None ''aug''
                   ''out.csv'' ''models/'' 3 5 5 empty_world) = Inl (Raised ''ValueError'')"
  by (simp add: do_classif_def models_def generate_splits_def feature_env_def run_defs
        feature_classifier_def upt_0_5 upt_0_4 string_of_nat_0 Let_def)

theorem do_classif_results_table_witness:
  "fst (generate_splits feature_env (unique (map subject example_table_D)) 5 3 [])
     = Inr [([0, 1, 2], [3]), ([1, 2, 3], [0]), ([2, 3, 0], [1]), ([3, 0, 1], [2]), ([0, 1, 2], [3])]
   \<and> fst (do_classif feature_env example_paths () () example_table_D (Some load_images) ''aug''
                     ''out.csv'' ''models/'' 3 5 5 empty_world) = Inr ()
   \<and> (\<exists>evs0 rows.
         trace (snd (do_classif feature_env example_paths () () example_table_D
                                (Some load_images) ''aug'' ''out.csv'' ''models/'' 3 5 5
                                empty_world))
           = evs0 @ [CsvWritten ''out.csv''
                       \<lparr>df_columns = [''method_name'', ''algo'', ''score'', ''split''],
                        df_rows = rows\<rparr>]
       \<and> csv_writes evs0 = []
       \<and> length rows = 10
       \<and> map (\<lambda>(m, a, s, i). i) rows = [0, 1, 2, 3, 4, 0, 1, 2, 3, 4]
       \<and> map (\<lambda>(m, a, s, i). a) rows
            = [''LDA'', ''LDA'', ''LDA'', ''LDA'', ''LDA'', ''RF'', ''RF'', ''RF'', ''RF'', ''RF'']
       \<and> map (\<lambda>(m, a, s, i). m) rows = replicate 10 ''aug'')
   \<and> fst (do_classif feature_env example_paths () () example_table_D None ''aug''
                     ''out.csv'' ''models/'' 3 5 5 empty_world) = Inl (Raised ''ValueError'')
   \<and> csv_writes (trace (snd (do_classif feature_env example_paths () () example_table_D None
                                        ''aug'' ''out.csv'' ''models/'' 3 5 5 empty_world))) = []"
proof -
  let ?run = "do_classif feature_env example_paths () () example_table_D (Some load_images)
                ''aug'' ''out.csv'' ''models/'' 3 5 5 empty_world"
  have five: "\<forall>e splits e'.
            generate_splits feature_env (unique (map subject example_table_D)) 5 3 e
              = (Inr splits, e')
            \<longrightarrow> length splits = 5"
    by (auto simp: generate_splits_def feature_env_def toy_env_def Let_def)
  have v: "fst (generate_splits feature_env (unique (map subject example_table_D)) 5 3 [])
     = Inr [([0, 1, 2], [3]), ([1, 2, 3], [0]), ([2, 3, 0], [1]), ([3, 0, 1], [2]), ([0, 1, 2], [3])]"
    by code_simp
  note ret = feature_run_returns
  note t = do_classif_results_table
             [OF five, of example_paths "()" "()" "Some load_images" "''aug''" "''out.csv''"
                "''models/''" 5 empty_world, unfolded ret sum.case]
  from t obtain evs evs0 rows
    where tr: "trace (snd ?run) = trace empty_world @ evs"
      and evs: "evs = evs0 @ [CsvWritten ''out.csv''
                       \<lparr>df_columns = [''method_name'', ''algo'', ''score'', ''split''],
                        df_rows = rows\<rparr>]"
      and quiet: "csv_writes evs0 = []"
      and n: "length rows = 10"
      and c1: "map (\<lambda>(m, a, s, i). i) rows = [0, 1, 2, 3, 4, 0, 1, 2, 3, 4]"
      and c2: "map (\<lambda>(m, a, s, i). a) rows
            = [''LDA'', ''LDA'', ''LDA'', ''LDA'', ''LDA'', ''RF'', ''RF'', ''RF'', ''RF'', ''RF'']"
      and c3: "map (\<lambda>(m, a, s, i). m) rows = replicate 10 ''aug''"
    by (elim exE conjE)
  have tr': "trace (snd ?run) = evs0 @ [CsvWritten ''out.csv''
                       \<lparr>df_columns = [''method_name'', ''algo'', ''score'', ''split''],
                        df_rows = rows\<rparr>]"
    using tr evs by (simp add: empty_world_def)
  have ex: "\<exists>evs0 rows.
         trace (snd ?run)
           = evs0 @ [CsvWritten ''out.csv''
                       \<lparr>df_columns = [''method_name'', ''algo'', ''score'', ''split''],
                        df_rows = rows\<rparr>]
       \<and> csv_writes evs0 = []
       \<and> length rows = 10
       \<and> map (\<lambda>(m, a, s, i). i) rows = [0, 1, 2, 3, 4, 0, 1, 2, 3, 4]
       \<and> map (\<lambda>(m, a, s, i). a) rows
            = [''LDA'', ''LDA'', ''LDA'', ''LDA'', ''LDA'', ''RF'', ''RF'', ''RF'', ''RF'', ''RF'']
       \<and> map (\<lambda>(m, a, s, i). m) rows = replicate 10 ''aug''"
    by (rule exI [of _ evs0], rule exI [of _ rows]) (intro conjI tr' quiet n c1 c2 c3)
  note t2 = do_classif_results_table
              [OF five, of example_paths "()" "()" None "''aug''" "''out.csv''" "''models/''" 5
                 empty_world, unfolded feature_run_raises sum.case]
  from t2 obtain evs2
    where "trace (snd (do_classif feature_env example_paths () () example_table_D None
                                  ''aug'' ''out.csv'' ''models/'' 3 5 5 empty_world))
             = trace empty_world @ evs2"
      and "csv_writes evs2 = []"
    by (elim exE conjE)
  then have none: "csv_writes (trace (snd (do_classif feature_env example_paths () ()
                      example_table_D None ''aug'' ''out.csv'' ''models/'' 3 5 5 empty_world))) = []"
    by (simp add: empty_world_def)
  show ?thesis by (intro conjI v ret ex feature_run_raises none)
qed
end
